theory Spec2Isabelle
  imports Main "HOL-Library.Finite_Map" "HOL-Library.Sublist"
begin

section \<open>Errors and diagnostics\<close>

text \<open>
  A Go \<^verbatim>\<open>error\<close> value. \<open>AWSError code message\<close> is an \<^verbatim>\<open>awserr.Error\<close>,
  \<open>TimeoutError\<close> is the SDK's \<^verbatim>\<open>*resource.TimeoutError\<close> with no last error,
  \<open>GenericError\<close> is an error made by \<^verbatim>\<open>fmt.Errorf\<close> without a cause and
  \<open>WrappedError prefix cause\<close> one made with the \<^verbatim>\<open>%w\<close> verb. The nil error is
  \<open>None\<close> of \<open>error option\<close>.
\<close>

datatype error =
    AWSError string string
  | TimeoutError
  | GenericError string
  | WrappedError string error

fun Error :: "error \<Rightarrow> string" where
  "Error (AWSError c m) = c @ '': '' @ m"
| "Error TimeoutError = ''timeout while waiting for state''"
| "Error (GenericError m) = m"
| "Error (WrappedError p e) = p @ Error e"

text \<open>The code of the AWS error an error is or wraps (\<^verbatim>\<open>errors.As\<close>).\<close>

fun awsCode :: "error \<Rightarrow> string option" where
  "awsCode (AWSError c m) = Some c"
| "awsCode (WrappedError p e) = awsCode e"
| "awsCode TimeoutError = None"
| "awsCode (GenericError m) = None"

text \<open>\<^verbatim>\<open>tfawserr.ErrCodeEquals(err, codes...)\<close>: false on the nil error.\<close>

definition ErrCodeEquals :: "error option \<Rightarrow> string list \<Rightarrow> bool" where
  "ErrCodeEquals err codes =
     (case err of
        None \<Rightarrow> False
      | Some e \<Rightarrow> (case awsCode e of None \<Rightarrow> False | Some c \<Rightarrow> c \<in> set codes))"

text \<open>
  \<^verbatim>\<open>tfresource.TimedOut(err)\<close>, of package tfresource: the error is the retry
  helper's timeout error, with no last error.
\<close>

definition TimedOut :: "error option \<Rightarrow> bool" where
  "TimedOut err = (err = Some TimeoutError)"

text \<open>
  The two error codes Read and Delete test for; the first is a constant of the package,
  the second \<^verbatim>\<open>s3.ErrCodeNoSuchBucket\<close>.
\<close>

definition ErrCodeNoSuchLifecycleConfiguration :: string where
  "ErrCodeNoSuchLifecycleConfiguration = ''NoSuchLifecycleConfiguration''"

definition ErrCodeNoSuchBucket :: string where
  "ErrCodeNoSuchBucket = ''NoSuchBucket''"

text \<open>\<^verbatim>\<open>diag.Diagnostics\<close>, by the summaries of its entries; \<open>[]\<close> is nil (success).\<close>

type_synonym Diagnostics = "string list"

section \<open>The S3 connection and the resource data\<close>

text \<open>
  The request fields shared by \<^verbatim>\<open>GetBucketLifecycleConfigurationInput\<close> and
  \<^verbatim>\<open>DeleteBucketLifecycleInput\<close>; the put request adds the rules. The rule types are
  parameters: \<open>'r\<close> is the API's rule list, \<open>'u\<close> the configuration's.
\<close>

record BucketInput =
  Bucket :: string
  ExpectedBucketOwner :: "string option"

record 'r PutBucketLifecycleConfigurationInput = BucketInput +
  LifecycleConfiguration :: 'r

record 'r GetBucketLifecycleConfigurationOutput =
  Rules :: 'r

text \<open>
  The remote side: the answer of the \<open>i\<close>-th call of each operation (counted from 0)
  to the request it is given. \<open>calls\<close> counts the requests issued so far.
\<close>

record 'r S3Conn =
  GetBucketLifecycleConfigurationWithContext ::
    "nat \<Rightarrow> BucketInput \<Rightarrow> error + 'r GetBucketLifecycleConfigurationOutput"
  PutBucketLifecycleConfigurationWithContext ::
    "nat \<Rightarrow> 'r PutBucketLifecycleConfigurationInput \<Rightarrow> error option"
  DeleteBucketLifecycleWithContext :: "nat \<Rightarrow> BucketInput \<Rightarrow> error option"

record calls =
  gets :: nat
  puts :: nat
  deletes :: nat

text \<open>\<^verbatim>\<open>schema.ResourceData\<close>: the id, the new-resource flag and the three attributes.\<close>

record 'u ResourceData =
  Id :: string
  IsNewResource :: bool
  bucket :: string
  expected_bucket_owner :: string
  rule :: 'u

text \<open>
  What the resource file uses of its package and of the SDK without defining it, as
  parameters: the rule mapper \<^verbatim>\<open>ExpandLifecycleRules\<close> and \<^verbatim>\<open>FlattenLifecycleRules\<close>,
  the identity codec \<^verbatim>\<open>CreateResourceID\<close> and \<^verbatim>\<open>ParseResourceID\<close>, the status waiter,
  the put retry helper \<^verbatim>\<open>verify.RetryOnAWSCode\<close>, the number of attempts the steady
  timeout leaves room for, and the error \<^verbatim>\<open>d.Set("rule", ...)\<close> returns, if any.
\<close>

record ('u, 'r) package =
  expandLifecycleRules :: "'u \<Rightarrow> error + 'r"
  FlattenLifecycleRules :: "'r \<Rightarrow> 'u"
  createResourceID :: "string \<Rightarrow> string \<Rightarrow> string"
  parseResourceID :: "string \<Rightarrow> error + string \<times> string"
  waitForLifecycleConfigurationRulesStatus ::
    "'r S3Conn \<Rightarrow> string \<Rightarrow> string \<Rightarrow> 'r \<Rightarrow> calls \<Rightarrow> error option \<times> calls"
  RetryOnAWSCode ::
    "string \<Rightarrow> (calls \<Rightarrow> error option \<times> calls) \<Rightarrow> calls \<Rightarrow> error option \<times> calls"
  lifecycleConfigurationRulesSteadyTimeout :: nat
  setRuleError :: "'u \<Rightarrow> error option"

section \<open>The retry helper\<close>

text \<open>\<^verbatim>\<open>*resource.RetryError\<close>; nil is \<open>None\<close>.\<close>

datatype RetryError = RetryableError error | NonRetryableError error

text \<open>
  \<^verbatim>\<open>resource.RetryContext(ctx, timeout, f)\<close>, the retry helper of the plugin SDK, which
  the resource calls. The helper keeps the error of the closure's last call in its
  variable \<^verbatim>\<open>resultErr\<close>. The closure \<open>f\<close> is called again while it asks for a retry,
  and its non-retryable error is returned as it is. When the time is used up the helper
  returns \<^verbatim>\<open>resultErr\<close> if a call of the closure has set it, and the timeout error
  only if none has. The time budget is the number of calls of the closure it leaves room
  for; a budget of 0 is a timeout that ends before the first call has returned.
\<close>

fun retryLoop ::
  "nat \<Rightarrow> ('s \<Rightarrow> RetryError option \<times> 's) \<Rightarrow> error option \<Rightarrow> 's \<Rightarrow> error option \<times> 's" where
  "retryLoop 0 f resultErr s =
     ((case resultErr of None \<Rightarrow> Some TimeoutError | Some e \<Rightarrow> Some e), s)"
| "retryLoop (Suc n) f resultErr s =
     (case f s of
        (None, s') \<Rightarrow> (None, s')
      | (Some (NonRetryableError e), s') \<Rightarrow> (Some e, s')
      | (Some (RetryableError e), s') \<Rightarrow> retryLoop n f (Some e) s')"

definition RetryContext ::
  "nat \<Rightarrow> ('s \<Rightarrow> RetryError option \<times> 's) \<Rightarrow> 's \<Rightarrow> error option \<times> 's" where
  "RetryContext n f s = retryLoop n f None s"

section \<open>Read\<close>

text \<open>The variables the retried closure of Read shares with its caller.\<close>

record 'r read_vars =
  lastOutput :: "'r GetBucketLifecycleConfigurationOutput option"
  output' :: "'r GetBucketLifecycleConfigurationOutput option"
  world :: calls

definition notFoundCodes :: "string list" where
  "notFoundCodes = [ErrCodeNoSuchLifecycleConfiguration, ErrCodeNoSuchBucket]"

text \<open>
  One remote get: its error, and the variables with the count advanced and \<open>output'\<close>
  (the Go variable \<^verbatim>\<open>output\<close>) set.
\<close>

definition getOnce ::
  "'r S3Conn \<Rightarrow> BucketInput \<Rightarrow> 'r read_vars \<Rightarrow> error option \<times> 'r read_vars" where
  "getOnce conn input v =
     (let w = world v;
          v' = v\<lparr>world := w\<lparr>gets := Suc (gets w)\<rparr>\<rparr>
      in case GetBucketLifecycleConfigurationWithContext conn (gets w) input of
           Inl e \<Rightarrow> (Some e, v'\<lparr>output' := None\<rparr>)
         | Inr out \<Rightarrow> (None, v'\<lparr>output' := Some out\<rparr>))"

text \<open>
  The closure passed to \<open>RetryContext\<close>: a get, a retry on a not-found error of a new
  resource, a stop on any other error, and a retry that remembers the output unless it
  equals the remembered one (\<^verbatim>\<open>reflect.DeepEqual\<close> is equality of the values).
  The sleep before the get has no effect on the values and is left out.
\<close>

definition readAttempt ::
  "'r S3Conn \<Rightarrow> 'u ResourceData \<Rightarrow> BucketInput \<Rightarrow> 'r read_vars
     \<Rightarrow> RetryError option \<times> 'r read_vars" where
  "readAttempt conn d input v =
     (case getOnce conn input v of (err, v') \<Rightarrow>
        (case err of
           Some e \<Rightarrow>
             if IsNewResource d \<and> ErrCodeEquals err notFoundCodes
             then (Some (RetryableError e), v')
             else (Some (NonRetryableError e), v')
         | None \<Rightarrow>
             if lastOutput v' = None \<or> lastOutput v' \<noteq> output' v'
             then (Some (RetryableError (GenericError
                     ''bucket lifecycle configuration has not stablized; trying again'')),
                   v'\<lparr>lastOutput := output' v'\<rparr>)
             else (None, v')))"

text \<open>The stabilization loop of Read, from fresh variables.\<close>

definition stabilize ::
  "nat \<Rightarrow> 'r S3Conn \<Rightarrow> 'u ResourceData \<Rightarrow> BucketInput \<Rightarrow> calls
     \<Rightarrow> error option \<times> 'r read_vars" where
  "stabilize n conn d input w =
     RetryContext n (readAttempt conn d input) \<lparr>lastOutput = None, output' = None, world = w\<rparr>"

text \<open>
  The part of Read after the loop and the fallback get. Reading the rules of a nil
  output, which Go would answer with a panic, is a branch of its own; no run reaches it,
  since the error is nil only after a get that set the output.
\<close>

definition readFinish ::
  "('u, 'r) package \<Rightarrow> 'u ResourceData \<Rightarrow> string \<Rightarrow> string
     \<Rightarrow> error option \<times> 'r read_vars \<Rightarrow> Diagnostics \<times> 'u ResourceData \<times> calls" where
  "readFinish pkg d bkt owner r =
     (case r of (err, v) \<Rightarrow>
        if \<not> IsNewResource d \<and> ErrCodeEquals err notFoundCodes
        then ([], d\<lparr>Id := []\<rparr>, world v)
        else (case err of
           Some e \<Rightarrow>
             ([''error getting S3 Bucket Lifecycle Configuration ('' @ Id d @ ''): '' @ Error e],
              d, world v)
         | None \<Rightarrow>
             (case output' v of
                None \<Rightarrow> ([''panic: nil pointer dereference''], d, world v)
              | Some out \<Rightarrow>
                  let d1 = d\<lparr>bucket := bkt, expected_bucket_owner := owner\<rparr>;
                      rules = FlattenLifecycleRules pkg (Rules out)
                  in (case setRuleError pkg rules of
                        Some e \<Rightarrow> ([''error setting rule: '' @ Error e], d1, world v)
                      | None \<Rightarrow> ([], d1\<lparr>rule := rules\<rparr>, world v)))))"

definition bucketInput :: "string \<Rightarrow> string \<Rightarrow> BucketInput" where
  "bucketInput bkt owner =
     \<lparr>Bucket = bkt, ExpectedBucketOwner = (if owner \<noteq> [] then Some owner else None)\<rparr>"

definition resourceBucketLifecycleConfigurationRead ::
  "('u, 'r) package \<Rightarrow> 'r S3Conn \<Rightarrow> 'u ResourceData \<Rightarrow> calls
     \<Rightarrow> Diagnostics \<times> 'u ResourceData \<times> calls" where
  "resourceBucketLifecycleConfigurationRead pkg conn d w =
     (case parseResourceID pkg (Id d) of
        Inl err \<Rightarrow> ([Error err], d, w)
      | Inr (bkt, owner) \<Rightarrow>
          let input = bucketInput bkt owner;
              r = stabilize (lifecycleConfigurationRulesSteadyTimeout pkg) conn d input w;
              r' = (if TimedOut (fst r) then getOnce conn input (snd r) else r)
          in readFinish pkg d bkt owner r')"

text \<open>
  A read the loop retries without looking at its output: a not-found error of a new
  resource.
\<close>

definition retried :: "'r S3Conn \<Rightarrow> 'u ResourceData \<Rightarrow> BucketInput \<Rightarrow> nat \<Rightarrow> bool" where
  "retried conn d input i =
     (IsNewResource d \<and>
      (case GetBucketLifecycleConfigurationWithContext conn i input of
         Inl e \<Rightarrow> ErrCodeEquals (Some e) notFoundCodes
       | Inr out \<Rightarrow> False))"

section \<open>Delete\<close>

definition resourceBucketLifecycleConfigurationDelete ::
  "('u, 'r) package \<Rightarrow> 'r S3Conn \<Rightarrow> 'u ResourceData \<Rightarrow> calls \<Rightarrow> Diagnostics \<times> calls" where
  "resourceBucketLifecycleConfigurationDelete pkg conn d w =
     (case parseResourceID pkg (Id d) of
        Inl err \<Rightarrow> ([Error err], w)
      | Inr (bkt, owner) \<Rightarrow>
          let input = bucketInput bkt owner;
              err = DeleteBucketLifecycleWithContext conn (deletes w) input;
              w' = w\<lparr>deletes := Suc (deletes w)\<rparr>
          in if ErrCodeEquals err notFoundCodes then ([], w')
             else (case err of
                Some e \<Rightarrow>
                  ([''error deleting S3 Bucket Lifecycle Configuration ('' @ Id d @ ''): ''
                      @ Error e], w')
              | None \<Rightarrow> ([], w')))"

section \<open>Create and Update\<close>

definition putInput :: "string \<Rightarrow> string \<Rightarrow> 'r \<Rightarrow> 'r PutBucketLifecycleConfigurationInput" where
  "putInput bkt owner rules =
     \<lparr>Bucket = bkt, ExpectedBucketOwner = (if owner \<noteq> [] then Some owner else None),
      LifecycleConfiguration = rules\<rparr>"

text \<open>One remote put, the closure handed to \<^verbatim>\<open>verify.RetryOnAWSCode\<close>.\<close>

definition putOnce ::
  "'r S3Conn \<Rightarrow> 'r PutBucketLifecycleConfigurationInput \<Rightarrow> calls \<Rightarrow> error option \<times> calls" where
  "putOnce conn input w =
     (PutBucketLifecycleConfigurationWithContext conn (puts w) input,
      w\<lparr>puts := Suc (puts w)\<rparr>)"

definition resourceBucketLifecycleConfigurationCreate ::
  "('u, 'r) package \<Rightarrow> 'r S3Conn \<Rightarrow> 'u ResourceData \<Rightarrow> calls
     \<Rightarrow> Diagnostics \<times> 'u ResourceData \<times> calls" where
  "resourceBucketLifecycleConfigurationCreate pkg conn d w =
     (let bkt = bucket d; owner = expected_bucket_owner d
      in case expandLifecycleRules pkg (rule d) of
        Inl err \<Rightarrow>
          ([''error creating S3 Lifecycle Configuration for bucket ('' @ bkt @ ''): ''
              @ Error err], d, w)
      | Inr rules \<Rightarrow>
          (case RetryOnAWSCode pkg ErrCodeNoSuchBucket
                  (putOnce conn (putInput bkt owner rules)) w of
             (Some err, w1) \<Rightarrow>
               ([''error creating S3 Lifecycle Configuration for bucket ('' @ bkt @ ''): ''
                   @ Error err], d, w1)
           | (None, w1) \<Rightarrow>
               let d1 = d\<lparr>Id := createResourceID pkg bkt owner\<rparr>
               in (case waitForLifecycleConfigurationRulesStatus pkg conn bkt owner rules w1 of
                     (Some err, w2) \<Rightarrow>
                       ([''error waiting for S3 Lifecycle Configuration for bucket (''
                           @ Id d1 @ '') to reach expected rules status after update: ''
                           @ Error err], d1, w2)
                   | (None, w2) \<Rightarrow> resourceBucketLifecycleConfigurationRead pkg conn d1 w2)))"

definition resourceBucketLifecycleConfigurationUpdate ::
  "('u, 'r) package \<Rightarrow> 'r S3Conn \<Rightarrow> 'u ResourceData \<Rightarrow> calls
     \<Rightarrow> Diagnostics \<times> 'u ResourceData \<times> calls" where
  "resourceBucketLifecycleConfigurationUpdate pkg conn d w =
     (case parseResourceID pkg (Id d) of
        Inl err \<Rightarrow> ([Error err], d, w)
      | Inr (bkt, owner) \<Rightarrow>
          (case expandLifecycleRules pkg (rule d) of
             Inl err \<Rightarrow>
               ([''error updating S3 Bucket Lifecycle Configuration rule: '' @ Error err],
                d, w)
           | Inr rules \<Rightarrow>
               (case RetryOnAWSCode pkg ErrCodeNoSuchLifecycleConfiguration
                       (putOnce conn (putInput bkt owner rules)) w of
                  (Some err, w1) \<Rightarrow>
                    ([''error updating S3 Bucket Lifecycle Configuration ('' @ Id d @ ''): ''
                        @ Error err], d, w1)
                | (None, w1) \<Rightarrow>
                    (case waitForLifecycleConfigurationRulesStatus pkg conn bkt owner rules w1 of
                       (Some err, w2) \<Rightarrow>
                         ([''error waiting for S3 Lifecycle Configuration for bucket (''
                             @ Id d @ '') to reach expected rules status after update: ''
                             @ Error err], d, w2)
                     | (None, w2) \<Rightarrow> resourceBucketLifecycleConfigurationRead pkg conn d w2))))"

section \<open>Bucket and object tags\<close>

text \<open>The message of the AWS error an error is or wraps.\<close>

fun awsMessage :: "error \<Rightarrow> string option" where
  "awsMessage (AWSError c m) = Some m"
| "awsMessage (WrappedError p e) = awsMessage e"
| "awsMessage TimeoutError = None"
| "awsMessage (GenericError m) = None"

text \<open>
  \<^verbatim>\<open>awsbase.IsAWSErr(err, code, message)\<close>: an AWS error with that code whose message
  contains \<open>message\<close> (every message contains the empty one).
\<close>

definition IsAWSErr :: "error option \<Rightarrow> string \<Rightarrow> string \<Rightarrow> bool" where
  "IsAWSErr err c message =
     (case err of
        None \<Rightarrow> False
      | Some e \<Rightarrow>
          (case (awsCode e, awsMessage e) of
             (Some c', Some m) \<Rightarrow> c' = c \<and> sublist message m
           | _ \<Rightarrow> False))"

text \<open>
  \<^verbatim>\<open>KeyValueTags\<close>, a Go map from tag keys to values. A \<^verbatim>\<open>TagSet\<close> of the API is
  given by the same map, so \<^verbatim>\<open>S3KeyValueTags\<close> and \<^verbatim>\<open>S3Tags\<close>, which convert
  between the two, do not appear; \<^verbatim>\<open>New(nil)\<close> is \<open>fmempty\<close>.
\<close>

type_synonym KeyValueTags = "(string, string) fmap"

definition len :: "KeyValueTags \<Rightarrow> nat" where
  "len tags = fcard (fmdom tags)"

text \<open>
  Modelled from the spec: \<^verbatim>\<open>KeyValueTags.IgnoreAws\<close>, a method that package
  keyvaluetags defines in another file. It keeps the "user" tags, those whose key is not one
  of AWS's own; which keys are AWS's own is the parameter \<open>aws\<close>.
\<close>

definition IgnoreAws :: "(string \<Rightarrow> bool) \<Rightarrow> KeyValueTags \<Rightarrow> KeyValueTags" where
  "IgnoreAws aws tags = fmfilter (\<lambda>k. \<not> aws k) tags"

text \<open>
  Modelled from the spec: \<^verbatim>\<open>KeyValueTags.Removed\<close>, defined in another file of the
  package. It is the spec's "minus": the tags of the receiver whose key the argument lacks.
\<close>

definition Removed :: "KeyValueTags \<Rightarrow> KeyValueTags \<Rightarrow> KeyValueTags" where
  "Removed tags newTags = fmfilter (\<lambda>k. k |\<notin>| fmdom newTags) tags"

text \<open>
  Modelled from the spec: \<^verbatim>\<open>KeyValueTags.Merge\<close>, defined in another file of the
  package. It is the spec's "union": the tags of both maps, with the argument's value for a key both
  have.
\<close>

definition Merge :: "KeyValueTags \<Rightarrow> KeyValueTags \<Rightarrow> KeyValueTags" where
  "Merge tags mergeTags = fmadd tags mergeTags"

text \<open>The tagging requests, and the remote side's answer to each.\<close>

datatype tag_call =
    GetBucketTaggingCall string
  | PutBucketTaggingCall string KeyValueTags
  | DeleteBucketTaggingCall string
  | GetObjectTaggingCall string string
  | PutObjectTaggingCall string string KeyValueTags
  | DeleteObjectTaggingCall string string

record TagsConn =
  GetBucketTagging :: "string \<Rightarrow> error + KeyValueTags"
  PutBucketTagging :: "string \<Rightarrow> KeyValueTags \<Rightarrow> error option"
  DeleteBucketTagging :: "string \<Rightarrow> error option"
  GetObjectTagging :: "string \<Rightarrow> string \<Rightarrow> error + KeyValueTags"
  PutObjectTagging :: "string \<Rightarrow> string \<Rightarrow> KeyValueTags \<Rightarrow> error option"
  DeleteObjectTagging :: "string \<Rightarrow> string \<Rightarrow> error option"

text \<open>
  Each function returns its Go result and the requests it issued, in order.
\<close>

definition S3BucketListTags ::
  "TagsConn \<Rightarrow> string \<Rightarrow> (KeyValueTags \<times> error option) \<times> tag_call list" where
  "S3BucketListTags conn identifier =
     ((case GetBucketTagging conn identifier of
         Inl e \<Rightarrow>
           if IsAWSErr (Some e) ''NoSuchTagSet'' [] then (fmempty, None)
           else (fmempty, Some e)
       | Inr tagSet \<Rightarrow> (tagSet, None)),
      [GetBucketTaggingCall identifier])"

definition S3BucketUpdateTags ::
  "(string \<Rightarrow> bool) \<Rightarrow> TagsConn \<Rightarrow> string \<Rightarrow> KeyValueTags \<Rightarrow> KeyValueTags
     \<Rightarrow> error option \<times> tag_call list" where
  "S3BucketUpdateTags aws conn identifier oldTags newTags =
     (case S3BucketListTags conn identifier of ((allTags, err), cs) \<Rightarrow>
        (case err of
           Some e \<Rightarrow>
             (Some (WrappedError (''error listing resource tags ('' @ identifier @ ''): '') e),
              cs)
         | None \<Rightarrow>
             let sysTags = Removed allTags (IgnoreAws aws allTags)
             in if len newTags + len sysTags > 0 then
                  (case PutBucketTagging conn identifier (Merge newTags sysTags) of
                     Some e \<Rightarrow>
                       (Some (WrappedError
                          (''error setting resource tags ('' @ identifier @ ''): '') e),
                        cs @ [PutBucketTaggingCall identifier (Merge newTags sysTags)])
                   | None \<Rightarrow>
                       (None, cs @ [PutBucketTaggingCall identifier (Merge newTags sysTags)]))
                else if len oldTags > 0 \<and> len sysTags = 0 then
                  (case DeleteBucketTagging conn identifier of
                     Some e \<Rightarrow>
                       (Some (WrappedError
                          (''error deleting resource tags ('' @ identifier @ ''): '') e),
                        cs @ [DeleteBucketTaggingCall identifier])
                   | None \<Rightarrow> (None, cs @ [DeleteBucketTaggingCall identifier]))
                else (None, cs)))"

definition S3ObjectListTags ::
  "TagsConn \<Rightarrow> string \<Rightarrow> string \<Rightarrow> (KeyValueTags \<times> error option) \<times> tag_call list" where
  "S3ObjectListTags conn bkt key =
     ((case GetObjectTagging conn bkt key of
         Inl e \<Rightarrow> (fmempty, Some e)
       | Inr tagSet \<Rightarrow> (tagSet, None)),
      [GetObjectTaggingCall bkt key])"

definition S3ObjectUpdateTags ::
  "(string \<Rightarrow> bool) \<Rightarrow> TagsConn \<Rightarrow> string \<Rightarrow> string \<Rightarrow> KeyValueTags \<Rightarrow> KeyValueTags
     \<Rightarrow> error option \<times> tag_call list" where
  "S3ObjectUpdateTags aws conn bkt key oldTags newTags =
     (if len newTags > 0 then
        (case PutObjectTagging conn bkt key (IgnoreAws aws newTags) of
           Some e \<Rightarrow>
             (Some (WrappedError
                (''error setting resource tags ('' @ bkt @ ''/'' @ key @ ''): '') e),
              [PutObjectTaggingCall bkt key (IgnoreAws aws newTags)])
         | None \<Rightarrow> (None, [PutObjectTaggingCall bkt key (IgnoreAws aws newTags)]))
      else if len oldTags > 0 then
        (case DeleteObjectTagging conn bkt key of
           Some e \<Rightarrow>
             (Some (WrappedError
                (''error deleting resource tags ('' @ bkt @ ''/'' @ key @ ''): '') e),
              [DeleteObjectTaggingCall bkt key])
         | None \<Rightarrow> (None, [DeleteObjectTaggingCall bkt key]))
      else (None, []))"

section \<open>The resource identity codec\<close>

text \<open>The spec's FormatError, for an id that has not the expected shape.\<close>

definition FormatError :: "string \<Rightarrow> error" where
  "FormatError i = GenericError (''unexpected format for ID ('' @ i @ '')'')"

text \<open>
  Modelled from the spec: \<^verbatim>\<open>CreateResourceID\<close>, which the resource calls and its
  package defines in another file. The identity is "a single string with a
  reserved separator": the bucket, the separator, and the owner account id, which is
  empty when absent. The separator is the parameter \<open>sep\<close>.
\<close>

definition CreateResourceID :: "char \<Rightarrow> string \<Rightarrow> string \<Rightarrow> string" where
  "CreateResourceID sep bkt expectedBucketOwner = bkt @ sep # expectedBucketOwner"

text \<open>
  Modelled from the spec: \<^verbatim>\<open>ParseResourceID\<close>, which the resource calls and its
  package defines in another file. Decoding "fails with a FormatError when the
  id does not match the expected separator-delimited shape", as "a string containing no
  separator" does; here also an id with an empty bucket or with a second separator.
\<close>

definition ParseResourceID :: "char \<Rightarrow> string \<Rightarrow> error + string \<times> string" where
  "ParseResourceID sep i =
     (if sep \<notin> set i then Inl (FormatError i)
      else
        let bkt = takeWhile (\<lambda>c. c \<noteq> sep) i;
            expectedBucketOwner = tl (dropWhile (\<lambda>c. c \<noteq> sep) i)
        in if bkt = [] \<or> sep \<in> set expectedBucketOwner then Inl (FormatError i)
           else Inr (bkt, expectedBucketOwner))"

text \<open>
  The spec's valid identities: a bucket name of 1 to 63 characters and an owner account
  id that is absent (empty) or 12 digits; the separator is reserved, so it is in neither.
\<close>

definition isDigit :: "char \<Rightarrow> bool" where
  "isDigit c = (c \<in> set ''0123456789'')"

definition validBucket :: "char \<Rightarrow> string \<Rightarrow> bool" where
  "validBucket sep bkt = (1 \<le> length bkt \<and> length bkt \<le> 63 \<and> sep \<notin> set bkt)"

definition validOwner :: "char \<Rightarrow> string \<Rightarrow> bool" where
  "validOwner sep owner =
     (owner = [] \<or> (length owner = 12 \<and> list_all isDigit owner \<and> sep \<notin> set owner))"

section \<open>The rule mapper\<close>

text \<open>
  The rule block of the configuration, by the schema of the resource: the id, the status,
  the deprecated prefix, and the nested blocks. A field that is not set is \<open>None\<close>.
\<close>

record ExpirationBlock =
  expiration_date :: "string option"
  expiration_days :: "int option"
  expired_object_delete_marker :: "bool option"

record FilterAndBlock =
  and_object_size_greater_than :: "int option"
  and_object_size_less_than :: "int option"
  and_prefix :: "string option"
  and_tags :: "(string \<times> string) list"

record FilterBlock =
  filter_and :: "FilterAndBlock option"
  filter_object_size_greater_than :: "int option"
  filter_object_size_less_than :: "int option"
  filter_prefix :: "string option"
  filter_tag :: "(string \<times> string) option"

record RuleBlock =
  rule_id :: string
  rule_status :: string
  rule_prefix :: "string option"
  rule_expiration :: "ExpirationBlock option"
  rule_filter :: "FilterBlock option"
  rule_abort_incomplete_multipart_upload :: "int option"
  rule_noncurrent_version_expiration :: "(int option \<times> int option) option"
  rule_noncurrent_version_transition :: "(int option \<times> int option \<times> string) list"
  rule_transition :: "(string option \<times> int option \<times> string) list"

text \<open>
  How many of the date, the days and a true expired-marker an expiration block sets, and
  how many of its sub-fields a \<^verbatim>\<open>filter.and\<close> block sets.
\<close>

definition expirationChoices :: "ExpirationBlock \<Rightarrow> nat" where
  "expirationChoices e =
     (if expiration_date e \<noteq> None then 1 else 0) +
     (if expiration_days e \<noteq> None then 1 else 0) +
     (if expired_object_delete_marker e = Some True then 1 else 0)"

definition andFieldsSet :: "FilterAndBlock \<Rightarrow> nat" where
  "andFieldsSet a =
     (if and_object_size_greater_than a \<noteq> None then 1 else 0) +
     (if and_object_size_less_than a \<noteq> None then 1 else 0) +
     (if and_prefix a \<noteq> None then 1 else 0) +
     (if and_tags a \<noteq> [] then 1 else 0)"

text \<open>
  Object-size bounds "must be non-negative, with lower bound < upper bound when both are
  present".
\<close>

definition sizeBoundsOk :: "int option \<Rightarrow> int option \<Rightarrow> bool" where
  "sizeBoundsOk lower upper =
     ((case lower of None \<Rightarrow> True | Some l \<Rightarrow> 0 \<le> l) \<and>
      (case upper of None \<Rightarrow> True | Some u \<Rightarrow> 0 \<le> u) \<and>
      (case (lower, upper) of (Some l, Some u) \<Rightarrow> l < u | _ \<Rightarrow> True))"

definition filterBoundsOk :: "FilterBlock \<Rightarrow> bool" where
  "filterBoundsOk f =
     (sizeBoundsOk (filter_object_size_greater_than f) (filter_object_size_less_than f) \<and>
      (case filter_and f of
         None \<Rightarrow> True
       | Some a \<Rightarrow>
           sizeBoundsOk (and_object_size_greater_than a) (and_object_size_less_than a)))"

text \<open>
  Modelled from the spec: the checks of \<^verbatim>\<open>ExpandLifecycleRules\<close>, which the resource
  calls and its package defines in another file. A rule is malformed when its id has
  occurred before ("duplicate rule id"), when its expiration block does not set "exactly
  one of" date, days and a true expired-marker, when its \<^verbatim>\<open>filter.and\<close> has fewer
  than two of its sub-fields set, or when an object-size bound is violated. \<open>seen\<close> are
  the ids of the rules before this one; the result is the first violation, if any.
\<close>

definition ruleViolation :: "string list \<Rightarrow> RuleBlock \<Rightarrow> string option" where
  "ruleViolation seen r =
     (if rule_id r \<in> set seen then Some ''duplicate rule id''
      else if (case rule_expiration r of
                 None \<Rightarrow> False
               | Some e \<Rightarrow> expirationChoices e \<noteq> 1)
      then Some ''expiration: exactly one of date, days and expired_object_delete_marker may be set''
      else if (case rule_filter r of
                 None \<Rightarrow> False
               | Some f \<Rightarrow> (case filter_and f of None \<Rightarrow> False | Some a \<Rightarrow> andFieldsSet a < 2))
      then Some ''filter.and: at least two of its fields must be set''
      else if (case rule_filter r of None \<Rightarrow> False | Some f \<Rightarrow> \<not> filterBoundsOk f)
      then Some ''filter: object size bounds must be non-negative, the lower below the upper''
      else None)"

text \<open>
  Modelled from the spec: the validation error of \<^verbatim>\<open>ExpandLifecycleRules\<close>, whose
  "error messages identify the offending rule by its id".
\<close>

definition ruleError :: "RuleBlock \<Rightarrow> string \<Rightarrow> error" where
  "ruleError r reason = GenericError (''rule ('' @ rule_id r @ ''): '' @ reason)"

text \<open>
  Modelled from the spec: \<^verbatim>\<open>ExpandLifecycleRules\<close>, from the rule given on with the ids
  \<open>seen\<close> before it. It "fails fast (no partial payload) on any structural violation":
  the rules are checked in order and the first malformed one ends the expansion with its
  error. The spec does not give the API's rule shape, so the translation of a well-formed
  rule is the parameter \<open>toRule\<close>.
\<close>

fun expandFrom :: "(RuleBlock \<Rightarrow> 'a) \<Rightarrow> string list \<Rightarrow> RuleBlock list \<Rightarrow> error + 'a list" where
  "expandFrom toRule seen [] = Inr []"
| "expandFrom toRule seen (r # rs) =
     (case ruleViolation seen r of
        Some reason \<Rightarrow> Inl (ruleError r reason)
      | None \<Rightarrow>
          (case expandFrom toRule (seen @ [rule_id r]) rs of
             Inl e \<Rightarrow> Inl e
           | Inr rules \<Rightarrow> Inr (toRule r # rules)))"

text \<open>
  Modelled from the spec: \<^verbatim>\<open>ExpandLifecycleRules\<close>, the expansion of the whole rule
  list.
\<close>

definition ExpandLifecycleRules :: "(RuleBlock \<Rightarrow> 'a) \<Rightarrow> RuleBlock list \<Rightarrow> error + 'a list" where
  "ExpandLifecycleRules toRule userRules = expandFrom toRule [] userRules"

section \<open>Example inputs\<close>

text \<open>
  A package whose helpers do the least: rules are lists of rule ids and map to
  themselves, the id is the bucket name, the waiter and the put retry add nothing, and
  the steady timeout leaves room for three attempts.
\<close>

definition examplePackage :: "(string list, string list) package" where
  "examplePackage =
     \<lparr>expandLifecycleRules = Inr,
      FlattenLifecycleRules = (\<lambda>r. r),
      createResourceID = (\<lambda>b owner. b),
      parseResourceID = (\<lambda>i. Inr (i, [])),
      waitForLifecycleConfigurationRulesStatus = (\<lambda>conn b owner r w. (None, w)),
      RetryOnAWSCode = (\<lambda>c f w. f w),
      lifecycleConfigurationRulesSteadyTimeout = 3,
      setRuleError = (\<lambda>u. None)\<rparr>"


definition noCalls :: calls where
  "noCalls = \<lparr>gets = 0, puts = 0, deletes = 0\<rparr>"

definition createdResource :: "string list ResourceData" where
  "createdResource =
     \<lparr>Id = ''my-bucket'', IsNewResource = True, bucket = ''my-bucket'',
      expected_bucket_owner = [], rule = [''expire-old'']\<rparr>"

definition knownResource :: "string list ResourceData" where
  "knownResource = createdResource\<lparr>IsNewResource := False\<rparr>"

definition noSuchLifecycleConfiguration :: error where
  "noSuchLifecycleConfiguration =
     AWSError ''NoSuchLifecycleConfiguration'' ''The lifecycle configuration does not exist''"

text \<open>A remote side whose reads are R1 \<open>\<noteq>\<close> R2 = R3 = ...: no rule, then one rule.\<close>

definition settlingConn :: "string list S3Conn" where
  "settlingConn =
     \<lparr>GetBucketLifecycleConfigurationWithContext =
        (\<lambda>i input. Inr \<lparr>Rules = (if i = 0 then [] else [''expire-old''])\<rparr>),
      PutBucketLifecycleConfigurationWithContext = (\<lambda>i input. None),
      DeleteBucketLifecycleWithContext = (\<lambda>i input. None)\<rparr>"

text \<open>A remote side that answers the second read with a not-found error.\<close>

definition flappingConn :: "string list S3Conn" where
  "flappingConn =
     \<lparr>GetBucketLifecycleConfigurationWithContext =
        (\<lambda>i input. if i = 1 then Inl noSuchLifecycleConfiguration
                    else Inr \<lparr>Rules = [''expire-old'']\<rparr>),
      PutBucketLifecycleConfigurationWithContext = (\<lambda>i input. None),
      DeleteBucketLifecycleWithContext = (\<lambda>i input. None)\<rparr>"

text \<open>A remote side on which the configuration and the bucket are gone.\<close>

definition absentConn :: "string list S3Conn" where
  "absentConn =
     \<lparr>GetBucketLifecycleConfigurationWithContext = (\<lambda>i input. Inl noSuchLifecycleConfiguration),
      PutBucketLifecycleConfigurationWithContext =
        (\<lambda>i input. Some (AWSError ''NoSuchBucket'' ''The specified bucket does not exist'')),
      DeleteBucketLifecycleWithContext =
        (\<lambda>i input. Some (AWSError ''NoSuchBucket'' ''The specified bucket does not exist''))\<rparr>"

text \<open>
  A remote side that lags behind the write: the first read is a not-found error, every
  later read shows the one rule.
\<close>

definition laggingConn :: "string list S3Conn" where
  "laggingConn =
     \<lparr>GetBucketLifecycleConfigurationWithContext =
        (\<lambda>i input. if i = 0 then Inl noSuchLifecycleConfiguration
                    else Inr \<lparr>Rules = [''expire-old'']\<rparr>),
      PutBucketLifecycleConfigurationWithContext = (\<lambda>i input. None),
      DeleteBucketLifecycleWithContext = (\<lambda>i input. None)\<rparr>"

text \<open>A remote side that refuses every request.\<close>

definition deniedConn :: "'r S3Conn" where
  "deniedConn =
     \<lparr>GetBucketLifecycleConfigurationWithContext =
        (\<lambda>i input. Inl (AWSError ''AccessDenied'' ''Access Denied'')),
      PutBucketLifecycleConfigurationWithContext =
        (\<lambda>i input. Some (AWSError ''AccessDenied'' ''Access Denied'')),
      DeleteBucketLifecycleWithContext =
        (\<lambda>i input. Some (AWSError ''AccessDenied'' ''Access Denied''))\<rparr>"


text \<open>AWS's own tag keys taken to be those that start with \<^verbatim>\<open>aws:\<close>.\<close>

definition hasAwsPrefix :: "string \<Rightarrow> bool" where
  "hasAwsPrefix k = prefix ''aws:'' k"

text \<open>A remote side that stores the given tags and accepts every write.\<close>

definition storingConn :: "KeyValueTags \<Rightarrow> TagsConn" where
  "storingConn tags =
     \<lparr>GetBucketTagging = (\<lambda>b. Inr tags),
      PutBucketTagging = (\<lambda>b t. None),
      DeleteBucketTagging = (\<lambda>b. None),
      GetObjectTagging = (\<lambda>b k. Inr tags),
      PutObjectTagging = (\<lambda>b k t. None),
      DeleteObjectTagging = (\<lambda>b k. None)\<rparr>"

text \<open>A remote side that answers every tag read with the no-tag-set error.\<close>

definition noTagSetConn :: TagsConn where
  "noTagSetConn =
     \<lparr>GetBucketTagging = (\<lambda>b. Inl (AWSError ''NoSuchTagSet'' ''The TagSet does not exist'')),
      PutBucketTagging = (\<lambda>b t. None),
      DeleteBucketTagging = (\<lambda>b. None),
      GetObjectTagging =
        (\<lambda>b k. Inl (AWSError ''NoSuchTagSet'' ''The TagSet does not exist'')),
      PutObjectTagging = (\<lambda>b k t. None),
      DeleteObjectTagging = (\<lambda>b k. None)\<rparr>"

text \<open>
  A package with the rule mapper of the spec, which leaves a well-formed rule as it is,
  and a configuration whose rule sets both the date and the days of its expiration.
\<close>

definition mappingPackage :: "(RuleBlock list, RuleBlock list) package" where
  "mappingPackage =
     \<lparr>expandLifecycleRules = ExpandLifecycleRules (\<lambda>r. r),
      FlattenLifecycleRules = (\<lambda>r. r),
      createResourceID = (\<lambda>b owner. b),
      parseResourceID = (\<lambda>i. Inr (i, [])),
      waitForLifecycleConfigurationRulesStatus = (\<lambda>conn b owner r w. (None, w)),
      RetryOnAWSCode = (\<lambda>c f w. f w),
      lifecycleConfigurationRulesSteadyTimeout = 3,
      setRuleError = (\<lambda>u. None)\<rparr>"

definition clashingRule :: RuleBlock where
  "clashingRule =
     \<lparr>rule_id = ''expire-old'', rule_status = ''Enabled'', rule_prefix = None,
      rule_expiration =
        Some \<lparr>expiration_date = Some ''2030-01-01T00:00:00Z'', expiration_days = Some 30,
              expired_object_delete_marker = None\<rparr>,
      rule_filter = None, rule_abort_incomplete_multipart_upload = None,
      rule_noncurrent_version_expiration = None, rule_noncurrent_version_transition = [],
      rule_transition = []\<rparr>"

definition clashingResource :: "RuleBlock list ResourceData" where
  "clashingResource =
     \<lparr>Id = ''my-bucket'', IsNewResource = False, bucket = ''my-bucket'',
      expected_bucket_owner = [], rule = [clashingRule]\<rparr>"

section \<open>The stabilization loop\<close>

lemma getOnce_Inl:
  "GetBucketLifecycleConfigurationWithContext conn (gets (world v)) input = Inl e \<Longrightarrow>
   getOnce conn input v =
     (Some e, v\<lparr>world := (world v)\<lparr>gets := Suc (gets (world v))\<rparr>, output' := None\<rparr>)"
  by (simp add: getOnce_def Let_def)

lemma getOnce_Inr:
  "GetBucketLifecycleConfigurationWithContext conn (gets (world v)) input = Inr out \<Longrightarrow>
   getOnce conn input v =
     (None, v\<lparr>world := (world v)\<lparr>gets := Suc (gets (world v))\<rparr>, output' := Some out\<rparr>)"
  by (simp add: getOnce_def Let_def)

lemma readAttempt_retry_notfound:
  "GetBucketLifecycleConfigurationWithContext conn (gets (world v)) input = Inl e \<Longrightarrow>
   IsNewResource d \<Longrightarrow> ErrCodeEquals (Some e) notFoundCodes \<Longrightarrow>
   readAttempt conn d input v =
     (Some (RetryableError e),
      v\<lparr>world := (world v)\<lparr>gets := Suc (gets (world v))\<rparr>, output' := None\<rparr>)"
  by (simp add: readAttempt_def getOnce_Inl)

lemma readAttempt_stop:
  "GetBucketLifecycleConfigurationWithContext conn (gets (world v)) input = Inl e \<Longrightarrow>
   \<not> (IsNewResource d \<and> ErrCodeEquals (Some e) notFoundCodes) \<Longrightarrow>
   readAttempt conn d input v =
     (Some (NonRetryableError e),
      v\<lparr>world := (world v)\<lparr>gets := Suc (gets (world v))\<rparr>, output' := None\<rparr>)"
  by (simp add: readAttempt_def getOnce_Inl)

lemma readAttempt_changed:
  "GetBucketLifecycleConfigurationWithContext conn (gets (world v)) input = Inr out \<Longrightarrow>
   lastOutput v \<noteq> Some out \<Longrightarrow>
   readAttempt conn d input v =
     (Some (RetryableError (GenericError
        ''bucket lifecycle configuration has not stablized; trying again'')),
      v\<lparr>world := (world v)\<lparr>gets := Suc (gets (world v))\<rparr>, output' := Some out,
        lastOutput := Some out\<rparr>)"
  by (auto simp add: readAttempt_def getOnce_Inr)

lemma readAttempt_same:
  "GetBucketLifecycleConfigurationWithContext conn (gets (world v)) input = Inr out \<Longrightarrow>
   lastOutput v = Some out \<Longrightarrow>
   readAttempt conn d input v =
     (None, v\<lparr>world := (world v)\<lparr>gets := Suc (gets (world v))\<rparr>, output' := Some out\<rparr>)"
  by (simp add: readAttempt_def getOnce_Inr)

text \<open>
  The invariant of the loop: the remembered output is that of an earlier read \<open>j\<close>, and
  every read since was retried for a not-found error.
\<close>

lemma loop_success:
  assumes "retryLoop n (readAttempt conn d input) resultErr v = (None, v')"
    and "g0 \<le> gets (world v)"
    and "\<forall>lo. lastOutput v = Some lo \<longrightarrow>
           (\<exists>j. g0 \<le> j \<and> j < gets (world v) \<and>
                GetBucketLifecycleConfigurationWithContext conn j input = Inr lo \<and>
                (\<forall>i. j < i \<and> i < gets (world v) \<longrightarrow> retried conn d input i))"
  shows "\<exists>j k out. g0 \<le> j \<and> j < k \<and> gets (world v') = Suc k \<and>
           GetBucketLifecycleConfigurationWithContext conn j input = Inr out \<and>
           GetBucketLifecycleConfigurationWithContext conn k input = Inr out \<and>
           output' v' = Some out \<and>
           (\<forall>i. j < i \<and> i < k \<longrightarrow> retried conn d input i)"
  using assms
proof (induction n arbitrary: v resultErr)
  case 0
  then show ?case by (simp split: option.splits)
next
  case (Suc n)
  let ?g = "gets (world v)"
  let ?G = "\<lambda>i. GetBucketLifecycleConfigurationWithContext conn i input"
  show ?case
  proof (cases "?G ?g")
    case (Inl e)
    show ?thesis
    proof (cases "IsNewResource d \<and> ErrCodeEquals (Some e) notFoundCodes")
      case True
      let ?v1 = "v\<lparr>world := (world v)\<lparr>gets := Suc ?g\<rparr>, output' := None\<rparr>"
      have step: "retryLoop n (readAttempt conn d input) (Some e) ?v1 = (None, v')"
        using Suc.prems(1) Inl True by (simp add: readAttempt_retry_notfound)
      have r: "retried conn d input ?g"
        using Inl True by (simp add: retried_def)
      have inv: "\<forall>lo. lastOutput ?v1 = Some lo \<longrightarrow>
           (\<exists>j. g0 \<le> j \<and> j < gets (world ?v1) \<and> ?G j = Inr lo \<and>
                (\<forall>i. j < i \<and> i < gets (world ?v1) \<longrightarrow> retried conn d input i))"
      proof (intro allI impI)
        fix lo assume "lastOutput ?v1 = Some lo"
        then have "lastOutput v = Some lo" by simp
        then obtain j where j: "g0 \<le> j" "j < ?g" "?G j = Inr lo"
          "\<forall>i. j < i \<and> i < ?g \<longrightarrow> retried conn d input i"
          using Suc.prems(3) by blast
        have "\<forall>i. j < i \<and> i < Suc ?g \<longrightarrow> retried conn d input i"
          using j(4) r by (auto simp: less_Suc_eq)
        then show "\<exists>j. g0 \<le> j \<and> j < gets (world ?v1) \<and> ?G j = Inr lo \<and>
                (\<forall>i. j < i \<and> i < gets (world ?v1) \<longrightarrow> retried conn d input i)"
          using j(1,2,3) by (intro exI[of _ j]) simp
      qed
      show ?thesis
        by (rule Suc.IH[OF step _ inv]) (use Suc.prems(2) in simp)
    next
      case False
      then show ?thesis
        using Suc.prems(1) Inl by (simp add: readAttempt_stop)
    qed
  next
    case (Inr out)
    show ?thesis
    proof (cases "lastOutput v = Some out")
      case True
      have v': "v' = v\<lparr>world := (world v)\<lparr>gets := Suc ?g\<rparr>, output' := Some out\<rparr>"
        using Suc.prems(1) Inr True by (simp add: readAttempt_same)
      obtain j where j: "g0 \<le> j" "j < ?g" "?G j = Inr out"
          "\<forall>i. j < i \<and> i < ?g \<longrightarrow> retried conn d input i"
        using Suc.prems(3) True by blast
      show ?thesis
        using j Inr by (intro exI[of _ j] exI[of _ ?g] exI[of _ out]) (simp add: v')
    next
      case False
      let ?v1 = "v\<lparr>world := (world v)\<lparr>gets := Suc ?g\<rparr>, output' := Some out,
                   lastOutput := Some out\<rparr>"
      have step: "retryLoop n (readAttempt conn d input)
          (Some (GenericError ''bucket lifecycle configuration has not stablized; trying again''))
          ?v1 = (None, v')"
        using Suc.prems(1) Inr False by (simp add: readAttempt_changed)
      have inv: "\<forall>lo. lastOutput ?v1 = Some lo \<longrightarrow>
           (\<exists>j. g0 \<le> j \<and> j < gets (world ?v1) \<and> ?G j = Inr lo \<and>
                (\<forall>i. j < i \<and> i < gets (world ?v1) \<longrightarrow> retried conn d input i))"
        using Inr Suc.prems(2) by (auto intro!: exI[of _ ?g])
      show ?thesis
        by (rule Suc.IH[OF step _ inv]) (use Suc.prems(2) in simp)
    qed
  qed
qed


text \<open>
  Claim C1, as amended. When the stabilization loop of Read reports success, the last
  read \<open>k\<close> and an earlier read \<open>j\<close> of the loop both succeeded with equal outputs,
  and every read between them was a not-found error of a new resource, which the loop
  retries while it keeps the output it remembers. So for a resource that is not new the
  two equal reads are consecutive, and in every case the loop has made at least two
  reads: it never accepts a single read alone. For reads R1 \<open>\<noteq>\<close> R2 = R3 and room for
  three attempts, the loop succeeds exactly after the third read.
\<close>

theorem stabilize_success_after_equal_reads:
  "(stabilize n conn d input w = (None, v) \<longrightarrow>
      (\<exists>j k out. gets w \<le> j \<and> j < k \<and> gets (world v) = Suc k \<and>
          GetBucketLifecycleConfigurationWithContext conn j input = Inr out \<and>
          GetBucketLifecycleConfigurationWithContext conn k input = Inr out \<and>
          output' v = Some out \<and>
          (\<forall>i. j < i \<and> i < k \<longrightarrow> retried conn d input i) \<and>
          (\<not> IsNewResource d \<longrightarrow> k = Suc j)) \<and>
      gets w + 2 \<le> gets (world v)) \<and>
   (GetBucketLifecycleConfigurationWithContext conn (gets w) input = Inr r1 \<and>
    GetBucketLifecycleConfigurationWithContext conn (Suc (gets w)) input = Inr r2 \<and>
    GetBucketLifecycleConfigurationWithContext conn (Suc (Suc (gets w))) input = Inr r2 \<and>
    r1 \<noteq> r2 \<and> 3 \<le> n \<longrightarrow>
      stabilize n conn d input w =
        (None, \<lparr>lastOutput = Some r2, output' = Some r2,
                world = w\<lparr>gets := gets w + 3\<rparr>\<rparr>))"
proof (intro conjI impI)
  assume s: "stabilize n conn d input w = (None, v)"
  let ?v0 = "\<lparr>lastOutput = None, output' = None, world = w\<rparr> :: 'a read_vars"
  have run: "retryLoop n (readAttempt conn d input) None ?v0 = (None, v)"
    using s by (simp add: stabilize_def RetryContext_def)
  obtain j k out where jk: "gets w \<le> j" "j < k" "gets (world v) = Suc k"
      "GetBucketLifecycleConfigurationWithContext conn j input = Inr out"
      "GetBucketLifecycleConfigurationWithContext conn k input = Inr out"
      "output' v = Some out"
      "\<forall>i. j < i \<and> i < k \<longrightarrow> retried conn d input i"
    using loop_success[OF run, of "gets w"] by auto
  have cons: "\<not> IsNewResource d \<longrightarrow> k = Suc j"
  proof
    assume old: "\<not> IsNewResource d"
    show "k = Suc j"
    proof (rule ccontr)
      assume "k \<noteq> Suc j"
      then have "j < Suc j \<and> Suc j < k" using jk(2) by simp
      then have "retried conn d input (Suc j)" using jk(7) by blast
      then show False using old by (simp add: retried_def)
    qed
  qed
  show "\<exists>j k out. gets w \<le> j \<and> j < k \<and> gets (world v) = Suc k \<and>
          GetBucketLifecycleConfigurationWithContext conn j input = Inr out \<and>
          GetBucketLifecycleConfigurationWithContext conn k input = Inr out \<and>
          output' v = Some out \<and>
          (\<forall>i. j < i \<and> i < k \<longrightarrow> retried conn d input i) \<and>
          (\<not> IsNewResource d \<longrightarrow> k = Suc j)"
    using jk cons by blast
  show "gets w + 2 \<le> gets (world v)"
    using jk(1,2,3) by simp
next
  assume a: "GetBucketLifecycleConfigurationWithContext conn (gets w) input = Inr r1 \<and>
    GetBucketLifecycleConfigurationWithContext conn (Suc (gets w)) input = Inr r2 \<and>
    GetBucketLifecycleConfigurationWithContext conn (Suc (Suc (gets w))) input = Inr r2 \<and>
    r1 \<noteq> r2 \<and> 3 \<le> n"
  then obtain m where n: "n = Suc (Suc (Suc m))"
    by (metis Suc_le_D numeral_3_eq_3 Suc_le_mono)
  let ?v0 = "\<lparr>lastOutput = None, output' = None, world = w\<rparr> :: 'a read_vars"
  let ?v1 = "\<lparr>lastOutput = Some r1, output' = Some r1, world = w\<lparr>gets := Suc (gets w)\<rparr>\<rparr>"
  let ?v2 = "\<lparr>lastOutput = Some r2, output' = Some r2,
              world = w\<lparr>gets := Suc (Suc (gets w))\<rparr>\<rparr>"
  let ?v3 = "\<lparr>lastOutput = Some r2, output' = Some r2,
              world = w\<lparr>gets := Suc (Suc (Suc (gets w)))\<rparr>\<rparr>"
  have 1: "readAttempt conn d input ?v0 =
     (Some (RetryableError (GenericError
        ''bucket lifecycle configuration has not stablized; trying again'')), ?v1)"
    using a by (simp add: readAttempt_changed)
  have 2: "readAttempt conn d input ?v1 =
     (Some (RetryableError (GenericError
        ''bucket lifecycle configuration has not stablized; trying again'')), ?v2)"
    using a by (simp add: readAttempt_changed)
  have 3: "readAttempt conn d input ?v2 = (None, ?v3)"
    using a by (simp add: readAttempt_same)
  show "stabilize n conn d input w =
        (None, \<lparr>lastOutput = Some r2, output' = Some r2,
                world = w\<lparr>gets := gets w + 3\<rparr>\<rparr>)"
    by (simp add: stabilize_def RetryContext_def n 1 2 3 eval_nat_numeral)
qed

text \<open>The loop on the reads R1 \<open>\<noteq>\<close> R2 = R3 of \<open>settlingConn\<close>.\<close>

lemma settling_run:
  "stabilize 3 settlingConn knownResource (bucketInput ''my-bucket'' []) noCalls =
     (None, \<lparr>lastOutput = Some \<lparr>Rules = [''expire-old'']\<rparr>,
             output' = Some \<lparr>Rules = [''expire-old'']\<rparr>,
             world = \<lparr>gets = 3, puts = 0, deletes = 0\<rparr>\<rparr>)"
  by (simp add: stabilize_def RetryContext_def eval_nat_numeral readAttempt_def getOnce_def
      settlingConn_def noCalls_def Let_def)

theorem stabilize_success_after_equal_reads_witness:
  "stabilize 3 settlingConn knownResource (bucketInput ''my-bucket'' []) noCalls =
     (None, \<lparr>lastOutput = Some \<lparr>Rules = [''expire-old'']\<rparr>,
             output' = Some \<lparr>Rules = [''expire-old'']\<rparr>,
             world = \<lparr>gets = 3, puts = 0, deletes = 0\<rparr>\<rparr>) \<and>
   GetBucketLifecycleConfigurationWithContext settlingConn 0 (bucketInput ''my-bucket'' []) \<noteq>
   GetBucketLifecycleConfigurationWithContext settlingConn 1 (bucketInput ''my-bucket'' []) \<and>
   (\<exists>j k out. j < k \<and> k = Suc j \<and> k = 2 \<and>
      GetBucketLifecycleConfigurationWithContext settlingConn j (bucketInput ''my-bucket'' [])
        = Inr out \<and>
      GetBucketLifecycleConfigurationWithContext settlingConn k (bucketInput ''my-bucket'' [])
        = Inr out)"
proof -
  have old: "\<not> IsNewResource knownResource"
    by (simp add: knownResource_def createdResource_def)
  from stabilize_success_after_equal_reads
    [of 3 settlingConn knownResource "bucketInput ''my-bucket'' []" noCalls
        "\<lparr>lastOutput = Some \<lparr>Rules = [''expire-old'']\<rparr>,
             output' = Some \<lparr>Rules = [''expire-old'']\<rparr>,
             world = \<lparr>gets = 3, puts = 0, deletes = 0\<rparr>\<rparr>"]
    settling_run old
  have "\<exists>j k out. j < k \<and> k = Suc j \<and> k = 2 \<and>
      GetBucketLifecycleConfigurationWithContext settlingConn j (bucketInput ''my-bucket'' [])
        = Inr out \<and>
      GetBucketLifecycleConfigurationWithContext settlingConn k (bucketInput ''my-bucket'' [])
        = Inr out"
    by (auto simp: eval_nat_numeral)
  moreover have "GetBucketLifecycleConfigurationWithContext settlingConn 0 (bucketInput ''my-bucket'' []) \<noteq>
   GetBucketLifecycleConfigurationWithContext settlingConn 1 (bucketInput ''my-bucket'' [])"
    by (simp add: settlingConn_def)
  ultimately show ?thesis using settling_run by blast
qed

text \<open>
  Claim C1 as stated fails for a new resource: on the reads R, not-found, R the loop
  succeeds after the third read, though no two consecutive reads are equal.
\<close>

theorem stabilize_consecutive_reads_counterexample:
  "fst (stabilize 3 flappingConn createdResource (bucketInput ''my-bucket'' []) noCalls) = None \<and>
   gets (world (snd (stabilize 3 flappingConn createdResource
                       (bucketInput ''my-bucket'' []) noCalls))) = 3 \<and>
   GetBucketLifecycleConfigurationWithContext flappingConn 0 (bucketInput ''my-bucket'' []) \<noteq>
   GetBucketLifecycleConfigurationWithContext flappingConn 1 (bucketInput ''my-bucket'' []) \<and>
   GetBucketLifecycleConfigurationWithContext flappingConn 1 (bucketInput ''my-bucket'' []) \<noteq>
   GetBucketLifecycleConfigurationWithContext flappingConn 2 (bucketInput ''my-bucket'' [])"
  by (simp add: stabilize_def RetryContext_def eval_nat_numeral readAttempt_def getOnce_def
      flappingConn_def noCalls_def Let_def createdResource_def ErrCodeEquals_def
      notFoundCodes_def noSuchLifecycleConfiguration_def
      ErrCodeNoSuchLifecycleConfiguration_def)

section \<open>Read and not-found errors\<close>

lemma notFound_not_timeout:
  "ErrCodeEquals (Some e) codes \<Longrightarrow> \<not> TimedOut (Some e)"
  by (cases e) (auto simp: ErrCodeEquals_def TimedOut_def)

text \<open>
  For a resource that is not new, a read of the loop that fails is its last read, and
  its error is the loop's.
\<close>

lemma loop_old_error:
  assumes "\<not> IsNewResource d"
    and "retryLoop n (readAttempt conn d input) resultErr v = (err, v')"
  shows "gets (world v) \<le> gets (world v') \<and>
         (\<forall>i e. gets (world v) \<le> i \<and> i < gets (world v') \<and>
                GetBucketLifecycleConfigurationWithContext conn i input = Inl e \<longrightarrow>
                err = Some e \<and> gets (world v') = Suc i)"
  using assms(2)
proof (induction n arbitrary: v resultErr)
  case 0
  then show ?case by auto
next
  case (Suc n)
  let ?g = "gets (world v)"
  show ?case
  proof (cases "GetBucketLifecycleConfigurationWithContext conn ?g input")
    case (Inl e)
    have "retryLoop (Suc n) (readAttempt conn d input) resultErr v =
            (Some e, v\<lparr>world := (world v)\<lparr>gets := Suc ?g\<rparr>, output' := None\<rparr>)"
      using Inl assms(1) by (simp add: readAttempt_stop)
    then show ?thesis using Suc.prems Inl by (auto simp: less_Suc_eq)
  next
    case (Inr out)
    show ?thesis
    proof (cases "lastOutput v = Some out")
      case True
      have "retryLoop (Suc n) (readAttempt conn d input) resultErr v =
              (None, v\<lparr>world := (world v)\<lparr>gets := Suc ?g\<rparr>, output' := Some out\<rparr>)"
        using Inr True by (simp add: readAttempt_same)
      then show ?thesis using Suc.prems Inr by (auto simp: less_Suc_eq)
    next
      case False
      let ?v1 = "v\<lparr>world := (world v)\<lparr>gets := Suc ?g\<rparr>, output' := Some out,
                   lastOutput := Some out\<rparr>"
      have "retryLoop n (readAttempt conn d input)
          (Some (GenericError ''bucket lifecycle configuration has not stablized; trying again''))
          ?v1 = (err, v')"
        using Suc.prems Inr False by (simp add: readAttempt_changed)
      from Suc.IH[OF this] have ih: "Suc ?g \<le> gets (world v')"
        "\<forall>i e. Suc ?g \<le> i \<and> i < gets (world v') \<and>
                GetBucketLifecycleConfigurationWithContext conn i input = Inl e \<longrightarrow>
                err = Some e \<and> gets (world v') = Suc i"
        by simp_all
      show ?thesis
      proof (intro conjI allI impI)
        show "?g \<le> gets (world v')" using ih(1) by simp
      next
        fix i e
        assume a: "?g \<le> i \<and> i < gets (world v') \<and>
                GetBucketLifecycleConfigurationWithContext conn i input = Inl e"
        then have "i \<noteq> ?g" using Inr by auto
        then have "Suc ?g \<le> i" using a by simp
        then show "err = Some e" "gets (world v') = Suc i" using ih(2) a by blast+
      qed
    qed
  qed
qed

lemma readFinish_cleared:
  "\<not> IsNewResource d \<Longrightarrow> ErrCodeEquals err notFoundCodes \<Longrightarrow>
   readFinish pkg d bkt owner (err, v) = ([], d\<lparr>Id := []\<rparr>, world v)"
  by (simp add: readFinish_def)

lemma read_old_not_found:
  assumes old: "\<not> IsNewResource d"
    and parse: "parseResourceID pkg (Id d) = Inr (bkt, owner)"
    and run: "resourceBucketLifecycleConfigurationRead pkg conn d w = (diags, d', w')"
    and k: "gets w \<le> k" "k < gets w'"
    and nf: "GetBucketLifecycleConfigurationWithContext conn k (bucketInput bkt owner) = Inl e"
      "ErrCodeEquals (Some e) notFoundCodes"
  shows "diags = [] \<and> d' = d\<lparr>Id := []\<rparr> \<and> gets w' = Suc k"
proof -
  let ?input = "bucketInput bkt owner"
  let ?v0 = "\<lparr>lastOutput = None, output' = None, world = w\<rparr> :: 'b read_vars"
  obtain err v where loop: "retryLoop (lifecycleConfigurationRulesSteadyTimeout pkg)
      (readAttempt conn d ?input) None ?v0 = (err, v)"
    by (cases "retryLoop (lifecycleConfigurationRulesSteadyTimeout pkg)
      (readAttempt conn d ?input) None ?v0") auto
  have st: "stabilize (lifecycleConfigurationRulesSteadyTimeout pkg) conn d ?input w = (err, v)"
    using loop by (simp add: stabilize_def RetryContext_def)
  from loop_old_error[OF old loop]
  have mono: "gets w \<le> gets (world v)"
    and first: "\<And>i e. gets w \<le> i \<Longrightarrow> i < gets (world v) \<Longrightarrow>
        GetBucketLifecycleConfigurationWithContext conn i ?input = Inl e \<Longrightarrow>
        err = Some e \<and> gets (world v) = Suc i"
    by auto
  show ?thesis
  proof (cases "TimedOut err")
    case True
    have rd: "resourceBucketLifecycleConfigurationRead pkg conn d w =
        readFinish pkg d bkt owner (getOnce conn ?input v)"
      using parse st True by (simp add: resourceBucketLifecycleConfigurationRead_def Let_def)
    have "\<not> k < gets (world v)"
    proof
      assume "k < gets (world v)"
      then have "err = Some e" using first[OF k(1) _ nf(1)] by simp
      then show False using True notFound_not_timeout[OF nf(2)] by simp
    qed
    moreover have "gets w' \<le> Suc (gets (world v))"
      using rd run
      by (auto simp: readFinish_def getOnce_def Let_def split: sum.splits if_splits option.splits)
    ultimately have kk: "k = gets (world v)" using k(2) by simp
    then have "getOnce conn ?input v =
      (Some e, v\<lparr>world := (world v)\<lparr>gets := Suc (gets (world v))\<rparr>, output' := None\<rparr>)"
      using nf(1) by (simp add: getOnce_Inl)
    then show ?thesis
      using rd run old nf(2) kk by (simp add: readFinish_cleared)
  next
    case False
    have rd: "resourceBucketLifecycleConfigurationRead pkg conn d w =
        readFinish pkg d bkt owner (err, v)"
      using parse st False by (simp add: resourceBucketLifecycleConfigurationRead_def Let_def)
    have "gets w' = gets (world v)"
      using rd run
      by (auto simp: readFinish_def Let_def split: if_splits option.splits)
    then have "err = Some e \<and> gets (world v) = Suc k"
      using first[OF k(1) _ nf(1)] k(2) by simp
    then show ?thesis
      using rd run old nf(2) by (simp add: readFinish_cleared)
  qed
qed


text \<open>
  Every attempt of the loop makes one get, and no more gets than the budget has attempts.
\<close>

lemma loop_gets:
  assumes "retryLoop n (readAttempt conn d input) resultErr v = (err, v')"
  shows "gets (world v) \<le> gets (world v') \<and> gets (world v') \<le> gets (world v) + n \<and>
         (0 < n \<longrightarrow> Suc (gets (world v)) \<le> gets (world v'))"
  using assms
proof (induction n arbitrary: v resultErr)
  case 0
  then show ?case by auto
next
  case (Suc n)
  obtain r v1 where a: "readAttempt conn d input v = (r, v1)"
    by (cases "readAttempt conn d input v") auto
  have g1: "gets (world v1) = Suc (gets (world v))"
    using a
    by (auto simp: readAttempt_def getOnce_def Let_def split: sum.splits option.splits if_splits)
  show ?case
  proof (cases r)
    case None
    then show ?thesis using Suc.prems a g1 by auto
  next
    case (Some re)
    show ?thesis
    proof (cases re)
      case (NonRetryableError e)
      then show ?thesis using Suc.prems a g1 Some by auto
    next
      case (RetryableError e)
      then have "retryLoop n (readAttempt conn d input) (Some e) v1 = (err, v')"
        using Suc.prems a Some by simp
      from Suc.IH[OF this] show ?thesis using g1 by auto
    qed
  qed
qed

text \<open>
  For a new resource, a not-found answer does not end the loop while the budget has an
  attempt left: the loop makes the next get.
\<close>

lemma loop_new_continues:
  assumes new: "IsNewResource d"
    and run: "retryLoop n (readAttempt conn d input) resultErr v = (err, v')"
    and k: "gets (world v) \<le> k" "k < gets (world v')" "Suc k < gets (world v) + n"
    and nf: "GetBucketLifecycleConfigurationWithContext conn k input = Inl e"
      "ErrCodeEquals (Some e) notFoundCodes"
  shows "Suc k < gets (world v')"
  using run k
proof (induction n arbitrary: v resultErr)
  case 0
  then show ?case by simp
next
  case (Suc n)
  let ?g = "gets (world v)"
  show ?case
  proof (cases "k = ?g")
    case True
    let ?v1 = "v\<lparr>world := (world v)\<lparr>gets := Suc ?g\<rparr>, output' := None\<rparr>"
    have step: "retryLoop n (readAttempt conn d input) (Some e) ?v1 = (err, v')"
      using Suc.prems(1) nf new True by (simp add: readAttempt_retry_notfound)
    have "0 < n" using Suc.prems(4) True by simp
    then have "Suc (gets (world ?v1)) \<le> gets (world v')"
      using loop_gets[OF step] by blast
    then show ?thesis using True by simp
  next
    case False
    then have kg: "Suc ?g \<le> k" using Suc.prems(2) by simp
    obtain r v1 where a: "readAttempt conn d input v = (r, v1)"
      by (cases "readAttempt conn d input v") auto
    have g1: "gets (world v1) = Suc ?g"
      using a
      by (auto simp: readAttempt_def getOnce_def Let_def split: sum.splits option.splits if_splits)
    show ?thesis
    proof (cases r)
      case None
      then have "v' = v1" using Suc.prems(1) a by simp
      then show ?thesis using g1 kg Suc.prems(3) by simp
    next
      case (Some re)
      show ?thesis
      proof (cases re)
        case (NonRetryableError e')
        then have "v' = v1" using Suc.prems(1) a Some by simp
        then show ?thesis using g1 kg Suc.prems(3) by simp
      next
        case (RetryableError e')
        then have step: "retryLoop n (readAttempt conn d input) (Some e') v1 = (err, v')"
          using Suc.prems(1) a Some by simp
        show ?thesis
          by (rule Suc.IH[OF step]) (use g1 kg Suc.prems(3,4) in simp_all)
      qed
    qed
  qed
qed

text \<open>
  For a new resource, not-found answers followed by two equal outputs: the loop retries
  through the not-found answers and succeeds on the second output.
\<close>

lemma loop_lagging:
  assumes new: "IsNewResource d"
    and nf: "\<forall>i<m. \<exists>e. GetBucketLifecycleConfigurationWithContext conn (gets (world v) + i) input
              = Inl e \<and> ErrCodeEquals (Some e) notFoundCodes"
    and r1: "GetBucketLifecycleConfigurationWithContext conn (gets (world v) + m) input = Inr out"
    and r2: "GetBucketLifecycleConfigurationWithContext conn (gets (world v) + Suc m) input
              = Inr out"
    and fresh: "lastOutput v = None"
    and n: "m + 2 \<le> n"
  shows "retryLoop n (readAttempt conn d input) resultErr v =
           (None, v\<lparr>world := (world v)\<lparr>gets := gets (world v) + m + 2\<rparr>,
                     output' := Some out, lastOutput := Some out\<rparr>)"
  using nf r1 r2 fresh n
proof (induction m arbitrary: v n resultErr)
  case 0
  then obtain n' where n': "n = Suc (Suc n')"
    by (metis Suc_le_D add_0 numeral_2_eq_2 Suc_le_mono)
  let ?g = "gets (world v)"
  let ?v1 = "v\<lparr>world := (world v)\<lparr>gets := Suc ?g\<rparr>, output' := Some out,
               lastOutput := Some out\<rparr>"
  have 1: "readAttempt conn d input v =
     (Some (RetryableError (GenericError
        ''bucket lifecycle configuration has not stablized; trying again'')), ?v1)"
    using "0.prems"(2,4) by (simp add: readAttempt_changed)
  have 2: "readAttempt conn d input ?v1 =
     (None, ?v1\<lparr>world := (world ?v1)\<lparr>gets := Suc (gets (world ?v1))\<rparr>, output' := Some out\<rparr>)"
    by (rule readAttempt_same) (use "0.prems"(3) in simp_all)
  show ?case by (simp add: n' 1 2)
next
  case (Suc m)
  then obtain n' where n': "n = Suc n'" "m + 2 \<le> n'"
    by (metis Suc_le_D add_Suc Suc_le_mono)
  let ?g = "gets (world v)"
  obtain e where e: "GetBucketLifecycleConfigurationWithContext conn ?g input = Inl e"
      "ErrCodeEquals (Some e) notFoundCodes"
    using Suc.prems(1) by force
  let ?v1 = "v\<lparr>world := (world v)\<lparr>gets := Suc ?g\<rparr>, output' := None\<rparr>"
  have step: "retryLoop n (readAttempt conn d input) resultErr v =
              retryLoop n' (readAttempt conn d input) (Some e) ?v1"
    using e new by (simp add: n' readAttempt_retry_notfound)
  have nf': "\<forall>i<m. \<exists>e. GetBucketLifecycleConfigurationWithContext conn
                (gets (world ?v1) + i) input = Inl e \<and> ErrCodeEquals (Some e) notFoundCodes"
  proof (intro allI impI)
    fix i assume "i < m"
    then have "Suc i < Suc m" by simp
    then have "\<exists>e. GetBucketLifecycleConfigurationWithContext conn (?g + Suc i) input = Inl e \<and>
        ErrCodeEquals (Some e) notFoundCodes"
      using Suc.prems(1) by blast
    then show "\<exists>e. GetBucketLifecycleConfigurationWithContext conn
                (gets (world ?v1) + i) input = Inl e \<and> ErrCodeEquals (Some e) notFoundCodes"
      by simp
  qed
  have "retryLoop n' (readAttempt conn d input) (Some e) ?v1 =
           (None, ?v1\<lparr>world := (world ?v1)\<lparr>gets := gets (world ?v1) + m + 2\<rparr>,
                     output' := Some out, lastOutput := Some out\<rparr>)"
    by (rule Suc.IH[OF nf']) (use Suc.prems(2,3,4) n'(2) in simp_all)
  then show ?case unfolding step by simp
qed

lemma read_lagging:
  assumes new: "IsNewResource d"
    and parse: "parseResourceID pkg (Id d) = Inr (bkt, owner)"
    and nf: "\<forall>i<m. \<exists>e. GetBucketLifecycleConfigurationWithContext conn (gets w + i)
                (bucketInput bkt owner) = Inl e \<and> ErrCodeEquals (Some e) notFoundCodes"
    and r1: "GetBucketLifecycleConfigurationWithContext conn (gets w + m)
               (bucketInput bkt owner) = Inr out"
    and r2: "GetBucketLifecycleConfigurationWithContext conn (gets w + Suc m)
               (bucketInput bkt owner) = Inr out"
    and n: "m + 2 \<le> lifecycleConfigurationRulesSteadyTimeout pkg"
  shows "resourceBucketLifecycleConfigurationRead pkg conn d w =
     (case setRuleError pkg (FlattenLifecycleRules pkg (Rules out)) of
        None \<Rightarrow>
          ([], d\<lparr>bucket := bkt, expected_bucket_owner := owner,
                  rule := FlattenLifecycleRules pkg (Rules out)\<rparr>,
           w\<lparr>gets := gets w + m + 2\<rparr>)
      | Some e \<Rightarrow>
          ([''error setting rule: '' @ Error e],
           d\<lparr>bucket := bkt, expected_bucket_owner := owner\<rparr>, w\<lparr>gets := gets w + m + 2\<rparr>))"
proof -
  let ?input = "bucketInput bkt owner"
  let ?v0 = "\<lparr>lastOutput = None, output' = None, world = w\<rparr> :: 'b read_vars"
  have "retryLoop (lifecycleConfigurationRulesSteadyTimeout pkg) (readAttempt conn d ?input)
          None ?v0 =
        (None, ?v0\<lparr>world := (world ?v0)\<lparr>gets := gets (world ?v0) + m + 2\<rparr>,
                    output' := Some out, lastOutput := Some out\<rparr>)"
    by (rule loop_lagging[OF new]) (use nf r1 r2 n in simp_all)
  then have st: "stabilize (lifecycleConfigurationRulesSteadyTimeout pkg) conn d ?input w =
        (None, \<lparr>lastOutput = Some out, output' = Some out,
                world = w\<lparr>gets := gets w + m + 2\<rparr>\<rparr>)"
    by (simp add: stabilize_def RetryContext_def)
  show ?thesis
    using parse
    by (simp add: resourceBucketLifecycleConfigurationRead_def st Let_def TimedOut_def
        readFinish_def ErrCodeEquals_def split: option.splits)
qed

text \<open>
  Claim C2. When the remote get returns a not-found error (code
  \<^verbatim>\<open>NoSuchLifecycleConfiguration\<close> or \<^verbatim>\<open>NoSuchBucket\<close>): for a new resource the
  closure of the stabilization loop answers with a retryable error; the loop of Read then
  makes its next get as long as the budget has an attempt left; and a Read whose first
  gets are not-found errors and whose next two gets agree goes through all of them and
  ends as a Read of the two agreeing gets alone does. For a resource that is not new,
  whichever read of Read gets that error is its last read, and Read clears the id and
  returns no diagnostics.
\<close>

theorem read_not_found:
  "(IsNewResource d \<and>
    GetBucketLifecycleConfigurationWithContext conn (gets (world v)) input = Inl e \<and>
    ErrCodeEquals (Some e) notFoundCodes \<longrightarrow>
      readAttempt conn d input v =
        (Some (RetryableError e),
         v\<lparr>world := (world v)\<lparr>gets := Suc (gets (world v))\<rparr>, output' := None\<rparr>)) \<and>
   (IsNewResource d \<and> stabilize n conn d input w = (err, vl) \<and>
    gets w \<le> j \<and> j < gets (world vl) \<and> Suc j < gets w + n \<and>
    GetBucketLifecycleConfigurationWithContext conn j input = Inl el \<and>
    ErrCodeEquals (Some el) notFoundCodes \<longrightarrow>
      Suc j < gets (world vl)) \<and>
   (IsNewResource d \<and> parseResourceID pkg (Id d) = Inr (bkt, owner) \<and>
    (\<forall>i<m. \<exists>e. GetBucketLifecycleConfigurationWithContext conn (gets w + i)
                 (bucketInput bkt owner) = Inl e \<and> ErrCodeEquals (Some e) notFoundCodes) \<and>
    GetBucketLifecycleConfigurationWithContext conn (gets w + m) (bucketInput bkt owner)
      = Inr out \<and>
    GetBucketLifecycleConfigurationWithContext conn (gets w + Suc m) (bucketInput bkt owner)
      = Inr out \<and>
    m + 2 \<le> lifecycleConfigurationRulesSteadyTimeout pkg \<longrightarrow>
      resourceBucketLifecycleConfigurationRead pkg conn d w =
        (case setRuleError pkg (FlattenLifecycleRules pkg (Rules out)) of
           None \<Rightarrow>
             ([], d\<lparr>bucket := bkt, expected_bucket_owner := owner,
                     rule := FlattenLifecycleRules pkg (Rules out)\<rparr>,
              w\<lparr>gets := gets w + m + 2\<rparr>)
         | Some e \<Rightarrow>
             ([''error setting rule: '' @ Error e],
              d\<lparr>bucket := bkt, expected_bucket_owner := owner\<rparr>,
              w\<lparr>gets := gets w + m + 2\<rparr>))) \<and>
   (\<not> IsNewResource d \<and> parseResourceID pkg (Id d) = Inr (bkt, owner) \<and>
    resourceBucketLifecycleConfigurationRead pkg conn d w = (diags, d', w') \<and>
    gets w \<le> k \<and> k < gets w' \<and>
    GetBucketLifecycleConfigurationWithContext conn k (bucketInput bkt owner) = Inl e' \<and>
    ErrCodeEquals (Some e') notFoundCodes \<longrightarrow>
      diags = [] \<and> d' = d\<lparr>Id := []\<rparr> \<and> gets w' = Suc k)"
proof (intro conjI impI)
  assume "IsNewResource d \<and>
    GetBucketLifecycleConfigurationWithContext conn (gets (world v)) input = Inl e \<and>
    ErrCodeEquals (Some e) notFoundCodes"
  then show "readAttempt conn d input v =
        (Some (RetryableError e),
         v\<lparr>world := (world v)\<lparr>gets := Suc (gets (world v))\<rparr>, output' := None\<rparr>)"
    by (simp add: readAttempt_retry_notfound)
next
  assume a: "IsNewResource d \<and> stabilize n conn d input w = (err, vl) \<and>
    gets w \<le> j \<and> j < gets (world vl) \<and> Suc j < gets w + n \<and>
    GetBucketLifecycleConfigurationWithContext conn j input = Inl el \<and>
    ErrCodeEquals (Some el) notFoundCodes"
  let ?v0 = "\<lparr>lastOutput = None, output' = None, world = w\<rparr> :: 'b read_vars"
  have run: "retryLoop n (readAttempt conn d input) None ?v0 = (err, vl)"
    using a by (simp add: stabilize_def RetryContext_def)
  show "Suc j < gets (world vl)"
    by (rule loop_new_continues[OF _ run, of j el]) (use a in simp_all)
next
  assume "IsNewResource d \<and> parseResourceID pkg (Id d) = Inr (bkt, owner) \<and>
    (\<forall>i<m. \<exists>e. GetBucketLifecycleConfigurationWithContext conn (gets w + i)
                 (bucketInput bkt owner) = Inl e \<and> ErrCodeEquals (Some e) notFoundCodes) \<and>
    GetBucketLifecycleConfigurationWithContext conn (gets w + m) (bucketInput bkt owner)
      = Inr out \<and>
    GetBucketLifecycleConfigurationWithContext conn (gets w + Suc m) (bucketInput bkt owner)
      = Inr out \<and>
    m + 2 \<le> lifecycleConfigurationRulesSteadyTimeout pkg"
  then show "resourceBucketLifecycleConfigurationRead pkg conn d w =
        (case setRuleError pkg (FlattenLifecycleRules pkg (Rules out)) of
           None \<Rightarrow>
             ([], d\<lparr>bucket := bkt, expected_bucket_owner := owner,
                     rule := FlattenLifecycleRules pkg (Rules out)\<rparr>,
              w\<lparr>gets := gets w + m + 2\<rparr>)
         | Some e \<Rightarrow>
             ([''error setting rule: '' @ Error e],
              d\<lparr>bucket := bkt, expected_bucket_owner := owner\<rparr>,
              w\<lparr>gets := gets w + m + 2\<rparr>))"
    using read_lagging by blast
next
  assume "\<not> IsNewResource d \<and> parseResourceID pkg (Id d) = Inr (bkt, owner) \<and>
    resourceBucketLifecycleConfigurationRead pkg conn d w = (diags, d', w') \<and>
    gets w \<le> k \<and> k < gets w' \<and>
    GetBucketLifecycleConfigurationWithContext conn k (bucketInput bkt owner) = Inl e' \<and>
    ErrCodeEquals (Some e') notFoundCodes"
  then have "diags = [] \<and> d' = d\<lparr>Id := []\<rparr> \<and> gets w' = Suc k"
    using read_old_not_found by blast
  then show "diags = []" "d' = d\<lparr>Id := []\<rparr>" "gets w' = Suc k" by simp_all
qed

text \<open>Read of a known resource whose configuration is gone.\<close>

lemma absent_known_read:
  "resourceBucketLifecycleConfigurationRead examplePackage absentConn knownResource noCalls =
     ([], knownResource\<lparr>Id := []\<rparr>, \<lparr>gets = 1, puts = 0, deletes = 0\<rparr>)"
  by (simp add: resourceBucketLifecycleConfigurationRead_def examplePackage_def absentConn_def
      knownResource_def createdResource_def noCalls_def stabilize_def RetryContext_def
      eval_nat_numeral readAttempt_def getOnce_def Let_def TimedOut_def readFinish_def
      ErrCodeEquals_def notFoundCodes_def noSuchLifecycleConfiguration_def
      ErrCodeNoSuchLifecycleConfiguration_def bucketInput_def)

text \<open>The loop for a new resource on the reads not-found, R, R of \<open>laggingConn\<close>.\<close>

lemma lagging_run:
  "stabilize 3 laggingConn createdResource (bucketInput ''my-bucket'' []) noCalls =
     (None, \<lparr>lastOutput = Some \<lparr>Rules = [''expire-old'']\<rparr>,
             output' = Some \<lparr>Rules = [''expire-old'']\<rparr>,
             world = \<lparr>gets = 3, puts = 0, deletes = 0\<rparr>\<rparr>)"
  by (simp add: stabilize_def RetryContext_def eval_nat_numeral readAttempt_def getOnce_def
      laggingConn_def noCalls_def Let_def createdResource_def ErrCodeEquals_def
      notFoundCodes_def noSuchLifecycleConfiguration_def
      ErrCodeNoSuchLifecycleConfiguration_def)

theorem read_not_found_witness:
  "IsNewResource createdResource \<and> \<not> IsNewResource knownResource \<and>
   GetBucketLifecycleConfigurationWithContext absentConn 0 (bucketInput ''my-bucket'' [])
     = Inl noSuchLifecycleConfiguration \<and>
   ErrCodeEquals (Some noSuchLifecycleConfiguration) notFoundCodes \<and>
   readAttempt absentConn createdResource (bucketInput ''my-bucket'' [])
       \<lparr>lastOutput = None, output' = None, world = noCalls\<rparr> =
     (Some (RetryableError noSuchLifecycleConfiguration),
      \<lparr>lastOutput = None, output' = None, world = \<lparr>gets = 1, puts = 0, deletes = 0\<rparr>\<rparr>) \<and>
   GetBucketLifecycleConfigurationWithContext laggingConn 0 (bucketInput ''my-bucket'' [])
     = Inl noSuchLifecycleConfiguration \<and>
   Suc 0 < gets (world (snd (stabilize 3 laggingConn createdResource
                               (bucketInput ''my-bucket'' []) noCalls))) \<and>
   resourceBucketLifecycleConfigurationRead examplePackage laggingConn createdResource noCalls =
     ([], createdResource, \<lparr>gets = 3, puts = 0, deletes = 0\<rparr>) \<and>
   resourceBucketLifecycleConfigurationRead examplePackage absentConn knownResource noCalls =
     ([], knownResource\<lparr>Id := []\<rparr>, \<lparr>gets = 1, puts = 0, deletes = 0\<rparr>)"
proof -
  let ?input = "bucketInput ''my-bucket'' []"
  let ?v0 = "\<lparr>lastOutput = None, output' = None, world = noCalls\<rparr> :: string list read_vars"
  let ?v3 = "\<lparr>lastOutput = Some \<lparr>Rules = [''expire-old'']\<rparr>,
              output' = Some \<lparr>Rules = [''expire-old'']\<rparr>,
              world = \<lparr>gets = 3, puts = 0, deletes = 0\<rparr>\<rparr>"
  note instA = read_not_found
    [where d = createdResource and conn = absentConn and v = ?v0 and input = ?input
       and e = noSuchLifecycleConfiguration]
  note instL = read_not_found
    [where d = createdResource and conn = laggingConn and input = ?input and n = 3
       and w = noCalls and err = None and vl = ?v3 and j = 0
       and el = noSuchLifecycleConfiguration and pkg = examplePackage
       and bkt = "''my-bucket''" and owner = "[]" and m = 1
       and out = "\<lparr>Rules = [''expire-old'']\<rparr>"]
  note instB = read_not_found
    [where d = knownResource and conn = absentConn and pkg = examplePackage
       and bkt = "''my-bucket''" and owner = "[]" and w = noCalls and k = 0
       and e' = noSuchLifecycleConfiguration
       and diags = "fst (resourceBucketLifecycleConfigurationRead examplePackage absentConn
                knownResource noCalls)"
       and d' = "fst (snd (resourceBucketLifecycleConfigurationRead examplePackage absentConn
                knownResource noCalls))"
       and w' = "snd (snd (resourceBucketLifecycleConfigurationRead examplePackage absentConn
                knownResource noCalls))"]
  have new: "IsNewResource createdResource" and old: "\<not> IsNewResource knownResource"
    by (simp_all add: knownResource_def createdResource_def)
  have g: "GetBucketLifecycleConfigurationWithContext absentConn 0 ?input
             = Inl noSuchLifecycleConfiguration"
    by (simp add: absentConn_def)
  have c: "ErrCodeEquals (Some noSuchLifecycleConfiguration) notFoundCodes"
    by (simp add: ErrCodeEquals_def notFoundCodes_def noSuchLifecycleConfiguration_def
        ErrCodeNoSuchLifecycleConfiguration_def)
  have p: "parseResourceID examplePackage (Id knownResource) = Inr (''my-bucket'', [])"
    and p': "parseResourceID examplePackage (Id createdResource) = Inr (''my-bucket'', [])"
    by (simp_all add: examplePackage_def knownResource_def createdResource_def)
  have k: "gets noCalls \<le> 0"
    "0 < gets (snd (snd (resourceBucketLifecycleConfigurationRead examplePackage absentConn
                knownResource noCalls)))"
    by (simp_all add: absent_known_read) (simp add: noCalls_def)
  have a: "readAttempt absentConn createdResource ?input ?v0 =
     (Some (RetryableError noSuchLifecycleConfiguration),
      ?v0\<lparr>world := (world ?v0)\<lparr>gets := Suc (gets (world ?v0))\<rparr>, output' := None\<rparr>)"
    using instA new g c by (simp add: noCalls_def)
  have l0: "GetBucketLifecycleConfigurationWithContext laggingConn 0 ?input
             = Inl noSuchLifecycleConfiguration"
    and l1: "GetBucketLifecycleConfigurationWithContext laggingConn (gets noCalls + 1) ?input
             = Inr \<lparr>Rules = [''expire-old'']\<rparr>"
    and l2: "GetBucketLifecycleConfigurationWithContext laggingConn (gets noCalls + Suc 1) ?input
             = Inr \<lparr>Rules = [''expire-old'']\<rparr>"
    by (simp_all add: laggingConn_def noCalls_def)
  have lnf: "\<forall>i<1. \<exists>e. GetBucketLifecycleConfigurationWithContext laggingConn (gets noCalls + i)
                 ?input = Inl e \<and> ErrCodeEquals (Some e) notFoundCodes"
    using l0 c by (simp add: noCalls_def)
  have budget: "1 + 2 \<le> lifecycleConfigurationRulesSteadyTimeout examplePackage"
    by (simp add: examplePackage_def)
  have j: "gets noCalls \<le> 0" "0 < gets (world ?v3)" "Suc 0 < gets noCalls + 3"
    by (simp_all add: noCalls_def)
  have l: "Suc 0 < gets (world ?v3)"
    using instL new lagging_run j l0 c by blast
  have r: "resourceBucketLifecycleConfigurationRead examplePackage laggingConn createdResource
             noCalls =
        (case setRuleError examplePackage
                (FlattenLifecycleRules examplePackage (Rules \<lparr>Rules = [''expire-old'']\<rparr>)) of
           None \<Rightarrow>
             ([], createdResource\<lparr>bucket := ''my-bucket'', expected_bucket_owner := [],
                     rule := FlattenLifecycleRules examplePackage
                               (Rules \<lparr>Rules = [''expire-old'']\<rparr>)\<rparr>,
              noCalls\<lparr>gets := gets noCalls + 1 + 2\<rparr>)
         | Some e \<Rightarrow>
             ([''error setting rule: '' @ Error e],
              createdResource\<lparr>bucket := ''my-bucket'', expected_bucket_owner := []\<rparr>,
              noCalls\<lparr>gets := gets noCalls + 1 + 2\<rparr>))"
    using instL new p' lnf l1 l2 budget by blast
  have r': "resourceBucketLifecycleConfigurationRead examplePackage laggingConn createdResource
              noCalls = ([], createdResource, \<lparr>gets = 3, puts = 0, deletes = 0\<rparr>)"
    unfolding r by (simp add: examplePackage_def createdResource_def noCalls_def)
  have b: "fst (resourceBucketLifecycleConfigurationRead examplePackage absentConn knownResource
                noCalls) = [] \<and>
        fst (snd (resourceBucketLifecycleConfigurationRead examplePackage absentConn
                knownResource noCalls)) = knownResource\<lparr>Id := []\<rparr> \<and>
        gets (snd (snd (resourceBucketLifecycleConfigurationRead examplePackage absentConn
                knownResource noCalls))) = Suc 0"
    using instB old p k g c by simp
  show ?thesis
    using new old g c a l0 l r' b absent_known_read lagging_run by (simp add: noCalls_def)
qed

section \<open>Read after a timeout of the loop\<close>







section \<open>Delete, Create and Update\<close>

text \<open>
  Claim C6. Once the id is parsed, Delete issues one remote delete; when that call reports
  \<^verbatim>\<open>NoSuchLifecycleConfiguration\<close> or \<^verbatim>\<open>NoSuchBucket\<close> Delete returns no
  diagnostics, as it does when the call succeeds, and on any other error it returns a
  diagnostic that carries the id and the error.
\<close>

theorem delete_absent_is_success:
  "parseResourceID pkg (Id d) = Inr (bkt, owner) \<longrightarrow>
     (ErrCodeEquals (DeleteBucketLifecycleWithContext conn (deletes w) (bucketInput bkt owner))
        notFoundCodes \<longrightarrow>
        resourceBucketLifecycleConfigurationDelete pkg conn d w =
          ([], w\<lparr>deletes := Suc (deletes w)\<rparr>)) \<and>
     (\<forall>e. DeleteBucketLifecycleWithContext conn (deletes w) (bucketInput bkt owner) = Some e \<and>
          \<not> ErrCodeEquals (Some e) notFoundCodes \<longrightarrow>
        resourceBucketLifecycleConfigurationDelete pkg conn d w =
          ([''error deleting S3 Bucket Lifecycle Configuration ('' @ Id d @ ''): '' @ Error e],
           w\<lparr>deletes := Suc (deletes w)\<rparr>)) \<and>
     (DeleteBucketLifecycleWithContext conn (deletes w) (bucketInput bkt owner) = None \<longrightarrow>
        resourceBucketLifecycleConfigurationDelete pkg conn d w =
          ([], w\<lparr>deletes := Suc (deletes w)\<rparr>))"
  by (simp add: resourceBucketLifecycleConfigurationDelete_def Let_def ErrCodeEquals_def)

theorem delete_absent_is_success_witness:
  "parseResourceID examplePackage (Id knownResource) = Inr (''my-bucket'', []) \<and>
   ErrCodeEquals (DeleteBucketLifecycleWithContext absentConn (deletes noCalls)
                    (bucketInput ''my-bucket'' [])) notFoundCodes \<and>
   resourceBucketLifecycleConfigurationDelete examplePackage absentConn knownResource noCalls =
     ([], \<lparr>gets = 0, puts = 0, deletes = 1\<rparr>) \<and>
   DeleteBucketLifecycleWithContext deniedConn (deletes noCalls) (bucketInput ''my-bucket'' [])
     = Some (AWSError ''AccessDenied'' ''Access Denied'') \<and>
   \<not> ErrCodeEquals (Some (AWSError ''AccessDenied'' ''Access Denied'')) notFoundCodes \<and>
   resourceBucketLifecycleConfigurationDelete examplePackage deniedConn knownResource noCalls =
     ([''error deleting S3 Bucket Lifecycle Configuration (my-bucket): AccessDenied: Access Denied''],
      \<lparr>gets = 0, puts = 0, deletes = 1\<rparr>)"
proof -
  let ?input = "bucketInput ''my-bucket'' []"
  have p: "parseResourceID examplePackage (Id knownResource) = Inr (''my-bucket'', [])"
    by (simp add: examplePackage_def knownResource_def createdResource_def)
  have a: "ErrCodeEquals (DeleteBucketLifecycleWithContext absentConn (deletes noCalls) ?input)
             notFoundCodes"
    by (simp add: absentConn_def ErrCodeEquals_def notFoundCodes_def ErrCodeNoSuchBucket_def)
  have b: "DeleteBucketLifecycleWithContext deniedConn (deletes noCalls) ?input
     = Some (AWSError ''AccessDenied'' ''Access Denied'')"
    by (simp add: deniedConn_def)
  have c: "\<not> ErrCodeEquals (Some (AWSError ''AccessDenied'' ''Access Denied'')) notFoundCodes"
    by (simp add: ErrCodeEquals_def notFoundCodes_def ErrCodeNoSuchBucket_def
        ErrCodeNoSuchLifecycleConfiguration_def)
  have r1: "resourceBucketLifecycleConfigurationDelete examplePackage absentConn knownResource
              noCalls = ([], noCalls\<lparr>deletes := Suc (deletes noCalls)\<rparr>)"
    using delete_absent_is_success
      [where pkg = examplePackage and d = knownResource and conn = absentConn and w = noCalls]
      p a by blast
  have r2: "resourceBucketLifecycleConfigurationDelete examplePackage deniedConn knownResource
              noCalls =
          ([''error deleting S3 Bucket Lifecycle Configuration ('' @ Id knownResource @ ''): ''
              @ Error (AWSError ''AccessDenied'' ''Access Denied'')],
           noCalls\<lparr>deletes := Suc (deletes noCalls)\<rparr>)"
    using delete_absent_is_success
      [where pkg = examplePackage and d = knownResource and conn = deniedConn and w = noCalls]
      p b c by blast
  show ?thesis
    using p a b c r1 r2 by (simp add: noCalls_def knownResource_def createdResource_def)
qed

lemma sublist_in_suffix: "sublist xs ys \<Longrightarrow> sublist xs (ps @ ys)"
  by (metis sublist_def append.assoc)

text \<open>
  When the rule mapper of the spec fails, its error is that of the first malformed rule
  of the list.
\<close>

lemma expandFrom_Inl:
  assumes "expandFrom toRule seen rs = Inl err"
  shows "\<exists>pre r post reason. rs = pre @ r # post \<and>
           (\<forall>i<length pre. ruleViolation (seen @ map rule_id (take i pre)) (pre ! i) = None) \<and>
           ruleViolation (seen @ map rule_id pre) r = Some reason \<and>
           err = ruleError r reason"
  using assms
proof (induction rs arbitrary: seen)
  case Nil
  then show ?case by simp
next
  case (Cons x xs)
  show ?case
  proof (cases "ruleViolation seen x")
    case (Some reason)
    then have "err = ruleError x reason" using Cons.prems by simp
    then show ?thesis
      using Some by (intro exI[of _ "[]"] exI[of _ x] exI[of _ xs] exI[of _ reason]) simp
  next
    case None
    then have "expandFrom toRule (seen @ [rule_id x]) xs = Inl err"
      using Cons.prems by (simp split: sum.splits)
    from Cons.IH[OF this] obtain pre r post reason where
      p: "xs = pre @ r # post"
        "\<forall>i<length pre. ruleViolation ((seen @ [rule_id x]) @ map rule_id (take i pre)) (pre ! i)
            = None"
        "ruleViolation ((seen @ [rule_id x]) @ map rule_id pre) r = Some reason"
        "err = ruleError r reason"
      by blast
    have first: "\<forall>i<length (x # pre).
        ruleViolation (seen @ map rule_id (take i (x # pre))) ((x # pre) ! i) = None"
    proof (intro allI impI)
      fix i assume i: "i < length (x # pre)"
      show "ruleViolation (seen @ map rule_id (take i (x # pre))) ((x # pre) ! i) = None"
      proof (cases i)
        case 0
        then show ?thesis using None by simp
      next
        case (Suc j)
        then have "j < length pre" using i by simp
        then show ?thesis using p(2) Suc by simp
      qed
    qed
    show ?thesis
      using p(1,3,4) first
      by (intro exI[of _ "x # pre"] exI[of _ r] exI[of _ post] exI[of _ reason]) simp
  qed
qed

lemma sublist_rule_id: "sublist (rule_id r) (ps @ Error (ruleError r reason))"
proof -
  have "Error (ruleError r reason) = ''rule ('' @ rule_id r @ (''): '' @ reason)"
    by (simp add: ruleError_def)
  then have "sublist (rule_id r) (Error (ruleError r reason))"
    by (simp only: sublist_appendI)
  then show ?thesis by (rule sublist_in_suffix)
qed

text \<open>
  Claim C8. When the rule mapper rejects the configuration, Create returns a diagnostic
  made of its own prefix and the mapper's error text, with the resource data and the
  count of remote calls unchanged: no request has been issued. Update does the same once
  the id is parsed, and issues no request in any case. With the rule mapper of the spec,
  the error is that of the first malformed rule of the list, and the diagnostic of
  Create and of Update contains the id of that rule.
\<close>

theorem expand_error_before_any_call:
  "(expandLifecycleRules pkg (rule d) = Inl err \<longrightarrow>
     resourceBucketLifecycleConfigurationCreate pkg conn d w =
       ([''error creating S3 Lifecycle Configuration for bucket ('' @ bucket d @ ''): ''
           @ Error err], d, w) \<and>
     (\<forall>bkt owner. parseResourceID pkg (Id d) = Inr (bkt, owner) \<longrightarrow>
        resourceBucketLifecycleConfigurationUpdate pkg conn d w =
          ([''error updating S3 Bucket Lifecycle Configuration rule: '' @ Error err], d, w)) \<and>
     fst (resourceBucketLifecycleConfigurationUpdate pkg conn d w) \<noteq> [] \<and>
     snd (resourceBucketLifecycleConfigurationUpdate pkg conn d w) = (d, w)) \<and>
   (expandLifecycleRules mpkg = ExpandLifecycleRules toRule \<and>
    ExpandLifecycleRules toRule (rule md) = Inl merr \<longrightarrow>
     (\<exists>pre r post reason.
        rule md = pre @ r # post \<and>
        (\<forall>i<length pre. ruleViolation (map rule_id (take i pre)) (pre ! i) = None) \<and>
        ruleViolation (map rule_id pre) r = Some reason \<and>
        merr = ruleError r reason \<and>
        resourceBucketLifecycleConfigurationCreate mpkg mconn md mw =
          ([''error creating S3 Lifecycle Configuration for bucket ('' @ bucket md @ ''): ''
              @ ''rule ('' @ rule_id r @ ''): '' @ reason], md, mw) \<and>
        sublist (rule_id r)
          (hd (fst (resourceBucketLifecycleConfigurationCreate mpkg mconn md mw))) \<and>
        (\<forall>bkt owner. parseResourceID mpkg (Id md) = Inr (bkt, owner) \<longrightarrow>
           resourceBucketLifecycleConfigurationUpdate mpkg mconn md mw =
             ([''error updating S3 Bucket Lifecycle Configuration rule: ''
                 @ ''rule ('' @ rule_id r @ ''): '' @ reason], md, mw) \<and>
           sublist (rule_id r)
             (hd (fst (resourceBucketLifecycleConfigurationUpdate mpkg mconn md mw))))))"
proof (intro conjI impI)
  assume e: "expandLifecycleRules pkg (rule d) = Inl err"
  show "resourceBucketLifecycleConfigurationCreate pkg conn d w =
       ([''error creating S3 Lifecycle Configuration for bucket ('' @ bucket d @ ''): ''
           @ Error err], d, w)"
    using e by (simp add: resourceBucketLifecycleConfigurationCreate_def Let_def)
  show "\<forall>bkt owner. parseResourceID pkg (Id d) = Inr (bkt, owner) \<longrightarrow>
        resourceBucketLifecycleConfigurationUpdate pkg conn d w =
          ([''error updating S3 Bucket Lifecycle Configuration rule: '' @ Error err], d, w)"
    using e by (simp add: resourceBucketLifecycleConfigurationUpdate_def)
  show "fst (resourceBucketLifecycleConfigurationUpdate pkg conn d w) \<noteq> []"
    using e by (simp add: resourceBucketLifecycleConfigurationUpdate_def split: sum.splits)
  show "snd (resourceBucketLifecycleConfigurationUpdate pkg conn d w) = (d, w)"
    using e by (simp add: resourceBucketLifecycleConfigurationUpdate_def split: sum.splits)
next
  assume a: "expandLifecycleRules mpkg = ExpandLifecycleRules toRule \<and>
    ExpandLifecycleRules toRule (rule md) = Inl merr"
  then have "expandFrom toRule [] (rule md) = Inl merr"
    by (simp add: ExpandLifecycleRules_def)
  from expandFrom_Inl[OF this] obtain pre r post reason where
    p: "rule md = pre @ r # post"
      "\<forall>i<length pre. ruleViolation (map rule_id (take i pre)) (pre ! i) = None"
      "ruleViolation (map rule_id pre) r = Some reason"
      "merr = ruleError r reason"
    by auto
  have e: "expandLifecycleRules mpkg (rule md) = Inl (ruleError r reason)"
    using a p(4) by simp
  have c: "resourceBucketLifecycleConfigurationCreate mpkg mconn md mw =
          ([''error creating S3 Lifecycle Configuration for bucket ('' @ bucket md @ ''): ''
              @ Error (ruleError r reason)], md, mw)"
    using e by (simp add: resourceBucketLifecycleConfigurationCreate_def Let_def)
  have u: "\<And>bkt owner. parseResourceID mpkg (Id md) = Inr (bkt, owner) \<Longrightarrow>
           resourceBucketLifecycleConfigurationUpdate mpkg mconn md mw =
             ([''error updating S3 Bucket Lifecycle Configuration rule: ''
                 @ Error (ruleError r reason)], md, mw)"
    using e by (simp add: resourceBucketLifecycleConfigurationUpdate_def)
  have t: "Error (ruleError r reason) = ''rule ('' @ rule_id r @ ''): '' @ reason"
    by (simp add: ruleError_def)
  have sc: "sublist (rule_id r)
          (hd (fst (resourceBucketLifecycleConfigurationCreate mpkg mconn md mw)))"
    unfolding c fst_conv list.sel by (intro sublist_in_suffix sublist_rule_id[of r "[]" reason, simplified])
  have su: "\<And>bkt owner. parseResourceID mpkg (Id md) = Inr (bkt, owner) \<Longrightarrow>
           sublist (rule_id r)
             (hd (fst (resourceBucketLifecycleConfigurationUpdate mpkg mconn md mw)))"
    by (simp only: u fst_conv list.sel sublist_rule_id)
  show "\<exists>pre r post reason.
        rule md = pre @ r # post \<and>
        (\<forall>i<length pre. ruleViolation (map rule_id (take i pre)) (pre ! i) = None) \<and>
        ruleViolation (map rule_id pre) r = Some reason \<and>
        merr = ruleError r reason \<and>
        resourceBucketLifecycleConfigurationCreate mpkg mconn md mw =
          ([''error creating S3 Lifecycle Configuration for bucket ('' @ bucket md @ ''): ''
              @ ''rule ('' @ rule_id r @ ''): '' @ reason], md, mw) \<and>
        sublist (rule_id r)
          (hd (fst (resourceBucketLifecycleConfigurationCreate mpkg mconn md mw))) \<and>
        (\<forall>bkt owner. parseResourceID mpkg (Id md) = Inr (bkt, owner) \<longrightarrow>
           resourceBucketLifecycleConfigurationUpdate mpkg mconn md mw =
             ([''error updating S3 Bucket Lifecycle Configuration rule: ''
                 @ ''rule ('' @ rule_id r @ ''): '' @ reason], md, mw) \<and>
           sublist (rule_id r)
             (hd (fst (resourceBucketLifecycleConfigurationUpdate mpkg mconn md mw))))"
    using p c[unfolded t] u[unfolded t] sc su
    by (intro exI[of _ pre] exI[of _ r] exI[of _ post] exI[of _ reason]) blast
qed

text \<open>The rule mapper of the spec on the rule that sets both the date and the days.\<close>

lemma clashing_expand:
  "ExpandLifecycleRules (\<lambda>r. r) (rule clashingResource) =
     Inl (ruleError clashingRule
       ''expiration: exactly one of date, days and expired_object_delete_marker may be set'')"
  by (simp add: ExpandLifecycleRules_def clashingResource_def ruleViolation_def
      clashingRule_def expirationChoices_def)

theorem expand_error_before_any_call_witness:
  "expandLifecycleRules mappingPackage (rule clashingResource) =
     Inl (ruleError clashingRule
       ''expiration: exactly one of date, days and expired_object_delete_marker may be set'') \<and>
   rule_id clashingRule = ''expire-old'' \<and>
   parseResourceID mappingPackage (Id clashingResource) = Inr (''my-bucket'', []) \<and>
   resourceBucketLifecycleConfigurationCreate mappingPackage deniedConn clashingResource
       noCalls =
     ([''error creating S3 Lifecycle Configuration for bucket (my-bucket): rule (expire-old): expiration: exactly one of date, days and expired_object_delete_marker may be set''],
      clashingResource, noCalls) \<and>
   resourceBucketLifecycleConfigurationUpdate mappingPackage deniedConn clashingResource
       noCalls =
     ([''error updating S3 Bucket Lifecycle Configuration rule: rule (expire-old): expiration: exactly one of date, days and expired_object_delete_marker may be set''],
      clashingResource, noCalls) \<and>
   sublist ''expire-old''
     (hd (fst (resourceBucketLifecycleConfigurationCreate mappingPackage deniedConn
                 clashingResource noCalls))) \<and>
   sublist ''expire-old''
     (hd (fst (resourceBucketLifecycleConfigurationUpdate mappingPackage deniedConn
                 clashingResource noCalls)))"
proof -
  let ?reason =
    "''expiration: exactly one of date, days and expired_object_delete_marker may be set''"
  let ?err = "ruleError clashingRule ?reason"
  let ?C = "resourceBucketLifecycleConfigurationCreate mappingPackage deniedConn
              clashingResource noCalls"
  let ?U = "resourceBucketLifecycleConfigurationUpdate mappingPackage deniedConn
              clashingResource noCalls"
  note inst = expand_error_before_any_call
    [where pkg = mappingPackage and d = clashingResource and conn = deniedConn and w = noCalls
       and err = ?err and mpkg = mappingPackage and toRule = "\<lambda>r. r"
       and md = clashingResource and merr = ?err and mconn = deniedConn and mw = noCalls]
  have m: "expandLifecycleRules mappingPackage = ExpandLifecycleRules (\<lambda>r. r)"
    by (simp add: mappingPackage_def)
  have e: "expandLifecycleRules mappingPackage (rule clashingResource) = Inl ?err"
    using clashing_expand by (simp add: m)
  have i: "rule_id clashingRule = ''expire-old''"
    by (simp add: clashingRule_def)
  have p: "parseResourceID mappingPackage (Id clashingResource) = Inr (''my-bucket'', [])"
    by (simp add: mappingPackage_def clashingResource_def)
  have t: "Error ?err = ''rule (expire-old): '' @ ?reason"
    by (simp add: ruleError_def i)
  have c: "?C =
       ([''error creating S3 Lifecycle Configuration for bucket ('' @ bucket clashingResource
           @ ''): '' @ Error ?err], clashingResource, noCalls)"
    using inst e by blast
  have u: "?U =
       ([''error updating S3 Bucket Lifecycle Configuration rule: '' @ Error ?err],
        clashingResource, noCalls)"
    using inst e p by blast
  obtain pre r post where r: "rule clashingResource = pre @ r # post"
      "sublist (rule_id r) (hd (fst ?C))"
      "\<forall>bkt owner. parseResourceID mappingPackage (Id clashingResource) = Inr (bkt, owner) \<longrightarrow>
         sublist (rule_id r) (hd (fst ?U))"
    using inst m clashing_expand by blast
  have "pre = [] \<and> r = clashingRule"
    using r(1) by (cases pre) (simp_all add: clashingResource_def)
  then have s: "sublist ''expire-old'' (hd (fst ?C))" "sublist ''expire-old'' (hd (fst ?U))"
    using r(2,3) p i by simp_all
  have c': "?C =
     ([''error creating S3 Lifecycle Configuration for bucket (my-bucket): rule (expire-old): expiration: exactly one of date, days and expired_object_delete_marker may be set''],
      clashingResource, noCalls)"
    unfolding c t by (simp add: clashingResource_def)
  have u': "?U =
     ([''error updating S3 Bucket Lifecycle Configuration rule: rule (expire-old): expiration: exactly one of date, days and expired_object_delete_marker may be set''],
      clashingResource, noCalls)"
    unfolding u t by simp
  show ?thesis
    using e i p c' u' s by blast
qed

section \<open>Tag updates\<close>

lemma fmdom_fempty_iff: "fmdom m = {||} \<longleftrightarrow> m = fmempty"
proof
  assume "fmdom m = {||}"
  then have "\<And>k. fmlookup m k = None" by (metis fmdom_notD fempty_iff)
  then show "m = fmempty" by (intro fmap_ext) simp
qed simp

lemma len_zero_iff: "len m = 0 \<longleftrightarrow> m = fmempty"
  by (simp add: len_def fmdom_fempty_iff)

lemma len_pos_iff: "0 < len m \<longleftrightarrow> m \<noteq> fmempty"
  using len_zero_iff[of m] by auto

lemma Merge_empty_iff: "Merge m n = fmempty \<longleftrightarrow> m = fmempty \<and> n = fmempty"
proof -
  have "fmdom (Merge m n) = {||} \<longleftrightarrow> fmdom m = {||} \<and> fmdom n = {||}"
    by (auto simp: Merge_def)
  then show ?thesis by (simp add: fmdom_fempty_iff)
qed

text \<open>The system tags the bucket update computes are the stored tags with a key of AWS's own.\<close>

lemma sysTags_eq: "Removed allTags (IgnoreAws aws allTags) = fmfilter aws allTags"
proof (rule fmap_ext)
  fix k
  show "fmlookup (Removed allTags (IgnoreAws aws allTags)) k = fmlookup (fmfilter aws allTags) k"
    by (cases "fmlookup allTags k") (auto simp: Removed_def IgnoreAws_def fmlookup_dom_iff)
qed

text \<open>The bucket update once the stored tags are listed, by its three branches.\<close>

lemma bucket_update_listed:
  assumes "fst (S3BucketListTags conn identifier) = (allTags, None)"
  shows "S3BucketUpdateTags aws conn identifier oldTags newTags =
     (if Merge newTags (fmfilter aws allTags) \<noteq> fmempty then
        (map_option (WrappedError (''error setting resource tags ('' @ identifier @ ''): ''))
           (PutBucketTagging conn identifier (Merge newTags (fmfilter aws allTags))),
         [GetBucketTaggingCall identifier,
          PutBucketTaggingCall identifier (Merge newTags (fmfilter aws allTags))])
      else if oldTags \<noteq> fmempty then
        (map_option (WrappedError (''error deleting resource tags ('' @ identifier @ ''): ''))
           (DeleteBucketTagging conn identifier),
         [GetBucketTaggingCall identifier, DeleteBucketTaggingCall identifier])
      else (None, [GetBucketTaggingCall identifier]))"
proof -
  have l: "S3BucketListTags conn identifier = ((allTags, None), [GetBucketTaggingCall identifier])"
    using assms by (simp add: S3BucketListTags_def)
  have c: "len newTags + len (fmfilter aws allTags) > 0 \<longleftrightarrow>
           Merge newTags (fmfilter aws allTags) \<noteq> fmempty"
    using len_pos_iff[of newTags] len_pos_iff[of "fmfilter aws allTags"]
    by (auto simp: Merge_empty_iff)
  show ?thesis
    unfolding S3BucketUpdateTags_def l sysTags_eq Let_def
    using c len_pos_iff[of oldTags] len_zero_iff[of "fmfilter aws allTags"]
    by (auto simp: Merge_empty_iff split: option.splits)
qed

text \<open>
  Claim C7. When the stored tags are listed without error, the bucket tag update takes as
  system tags the stored tags minus those \<open>IgnoreAws\<close> keeps, that is the stored tags with
  a key of AWS's own. If the union of the new tags and the system tags is not empty it
  writes that union, in which every system tag keeps its value and every other key has
  the value of the new tags; else if there are old tags it issues the delete of all tags;
  otherwise it issues no write. With a system tag with value x and a user tag with value a
  stored and no new tag, the write is the system tag alone.
\<close>

theorem bucket_update_keeps_system_tags:
  "fst (S3BucketListTags conn identifier) = (allTags, None) \<longrightarrow>
     Removed allTags (IgnoreAws aws allTags) = fmfilter aws allTags \<and>
     (Merge newTags (fmfilter aws allTags) \<noteq> fmempty \<longrightarrow>
        snd (S3BucketUpdateTags aws conn identifier oldTags newTags) =
          [GetBucketTaggingCall identifier,
           PutBucketTaggingCall identifier (Merge newTags (fmfilter aws allTags))] \<and>
        (\<forall>k v. aws k \<and> fmlookup allTags k = Some v \<longrightarrow>
           fmlookup (Merge newTags (fmfilter aws allTags)) k = Some v) \<and>
        (\<forall>k. \<not> aws k \<longrightarrow>
           fmlookup (Merge newTags (fmfilter aws allTags)) k = fmlookup newTags k)) \<and>
     (Merge newTags (fmfilter aws allTags) = fmempty \<and> oldTags \<noteq> fmempty \<longrightarrow>
        snd (S3BucketUpdateTags aws conn identifier oldTags newTags) =
          [GetBucketTaggingCall identifier, DeleteBucketTaggingCall identifier]) \<and>
     (Merge newTags (fmfilter aws allTags) = fmempty \<and> oldTags = fmempty \<longrightarrow>
        S3BucketUpdateTags aws conn identifier oldTags newTags =
          (None, [GetBucketTaggingCall identifier])) \<and>
     (\<forall>sys user x a. aws sys \<and> \<not> aws user \<and>
        allTags = fmupd sys x (fmupd user a fmempty) \<longrightarrow>
        snd (S3BucketUpdateTags aws conn identifier oldTags fmempty) =
          [GetBucketTaggingCall identifier,
           PutBucketTaggingCall identifier (fmupd sys x fmempty)])"
proof
  assume l: "fst (S3BucketListTags conn identifier) = (allTags, None)"
  note u = bucket_update_listed[OF l, of aws]
  have ex: "snd (S3BucketUpdateTags aws conn identifier oldTags fmempty) =
          [GetBucketTaggingCall identifier,
           PutBucketTaggingCall identifier (fmupd sys x fmempty)]"
    if "aws sys \<and> \<not> aws user \<and> allTags = fmupd sys x (fmupd user a fmempty)"
    for sys user x a
  proof -
    have "fmfilter aws allTags = fmupd sys x fmempty" using that by auto
    then show ?thesis by (simp add: u Merge_def)
  qed
  have put: "snd (S3BucketUpdateTags aws conn identifier oldTags newTags) =
          [GetBucketTaggingCall identifier,
           PutBucketTaggingCall identifier (Merge newTags (fmfilter aws allTags))]"
    if "Merge newTags (fmfilter aws allTags) \<noteq> fmempty"
    using that by (simp add: u)
  have keep: "\<forall>k v. aws k \<and> fmlookup allTags k = Some v \<longrightarrow>
           fmlookup (Merge newTags (fmfilter aws allTags)) k = Some v"
    by (auto simp: Merge_def fmlookup_dom_iff)
  have user: "\<forall>k. \<not> aws k \<longrightarrow>
           fmlookup (Merge newTags (fmfilter aws allTags)) k = fmlookup newTags k"
    by (simp add: Merge_def)
  have del: "snd (S3BucketUpdateTags aws conn identifier oldTags newTags) =
          [GetBucketTaggingCall identifier, DeleteBucketTaggingCall identifier]"
    if "Merge newTags (fmfilter aws allTags) = fmempty \<and> oldTags \<noteq> fmempty"
    using that by (simp add: u)
  have noop: "S3BucketUpdateTags aws conn identifier oldTags newTags =
          (None, [GetBucketTaggingCall identifier])"
    if "Merge newTags (fmfilter aws allTags) = fmempty \<and> oldTags = fmempty"
    using that by (simp add: u)
  show "Removed allTags (IgnoreAws aws allTags) = fmfilter aws allTags \<and>
     (Merge newTags (fmfilter aws allTags) \<noteq> fmempty \<longrightarrow>
        snd (S3BucketUpdateTags aws conn identifier oldTags newTags) =
          [GetBucketTaggingCall identifier,
           PutBucketTaggingCall identifier (Merge newTags (fmfilter aws allTags))] \<and>
        (\<forall>k v. aws k \<and> fmlookup allTags k = Some v \<longrightarrow>
           fmlookup (Merge newTags (fmfilter aws allTags)) k = Some v) \<and>
        (\<forall>k. \<not> aws k \<longrightarrow>
           fmlookup (Merge newTags (fmfilter aws allTags)) k = fmlookup newTags k)) \<and>
     (Merge newTags (fmfilter aws allTags) = fmempty \<and> oldTags \<noteq> fmempty \<longrightarrow>
        snd (S3BucketUpdateTags aws conn identifier oldTags newTags) =
          [GetBucketTaggingCall identifier, DeleteBucketTaggingCall identifier]) \<and>
     (Merge newTags (fmfilter aws allTags) = fmempty \<and> oldTags = fmempty \<longrightarrow>
        S3BucketUpdateTags aws conn identifier oldTags newTags =
          (None, [GetBucketTaggingCall identifier])) \<and>
     (\<forall>sys user x a. aws sys \<and> \<not> aws user \<and>
        allTags = fmupd sys x (fmupd user a fmempty) \<longrightarrow>
        snd (S3BucketUpdateTags aws conn identifier oldTags fmempty) =
          [GetBucketTaggingCall identifier,
           PutBucketTaggingCall identifier (fmupd sys x fmempty)])"
    using sysTags_eq[of allTags aws] put keep user del noop ex by blast
qed


theorem bucket_update_keeps_system_tags_witness:
  "fst (S3BucketListTags (storingConn (fmupd ''aws:sys'' ''x'' (fmupd ''user'' ''a'' fmempty)))
          ''my-bucket'') = (fmupd ''aws:sys'' ''x'' (fmupd ''user'' ''a'' fmempty), None) \<and>
   hasAwsPrefix ''aws:sys'' \<and> \<not> hasAwsPrefix ''user'' \<and>
   snd (S3BucketUpdateTags hasAwsPrefix
          (storingConn (fmupd ''aws:sys'' ''x'' (fmupd ''user'' ''a'' fmempty)))
          ''my-bucket'' (fmupd ''user'' ''a'' fmempty) fmempty) =
     [GetBucketTaggingCall ''my-bucket'',
      PutBucketTaggingCall ''my-bucket'' (fmupd ''aws:sys'' ''x'' fmempty)]"
proof -
  let ?stored = "fmupd ''aws:sys'' ''x'' (fmupd ''user'' ''a'' fmempty)"
  have l: "fst (S3BucketListTags (storingConn ?stored) ''my-bucket'') = (?stored, None)"
    by (simp add: S3BucketListTags_def storingConn_def)
  have a: "hasAwsPrefix ''aws:sys''" and b: "\<not> hasAwsPrefix ''user''"
    by (simp_all add: hasAwsPrefix_def)
  have "snd (S3BucketUpdateTags hasAwsPrefix (storingConn ?stored) ''my-bucket''
               (fmupd ''user'' ''a'' fmempty) fmempty) =
     [GetBucketTaggingCall ''my-bucket'',
      PutBucketTaggingCall ''my-bucket'' (fmupd ''aws:sys'' ''x'' fmempty)]"
    using bucket_update_keeps_system_tags
      [of "storingConn ?stored" "''my-bucket''" ?stored hasAwsPrefix fmempty
          "fmupd ''user'' ''a'' fmempty"] l a b
    by blast
  then show ?thesis using l a b by blast
qed

text \<open>
  Claim C9, as amended. \<open>S3BucketListTags\<close> answers the \<^verbatim>\<open>NoSuchTagSet\<close> error of the
  remote API with an empty tag set and no error. \<open>S3ObjectListTags\<close> has no such case: it
  returns every error of the remote API, with an empty tag set.
\<close>

theorem list_tags_no_tag_set:
  "(GetBucketTagging conn identifier = Inl e \<and> IsAWSErr (Some e) ''NoSuchTagSet'' [] \<longrightarrow>
      S3BucketListTags conn identifier = ((fmempty, None), [GetBucketTaggingCall identifier])) \<and>
   (GetObjectTagging conn bkt key = Inl e' \<longrightarrow>
      S3ObjectListTags conn bkt key = ((fmempty, Some e'), [GetObjectTaggingCall bkt key]))"
  by (simp add: S3BucketListTags_def S3ObjectListTags_def)

theorem list_tags_no_tag_set_witness:
  "GetBucketTagging noTagSetConn ''my-bucket'' =
     Inl (AWSError ''NoSuchTagSet'' ''The TagSet does not exist'') \<and>
   IsAWSErr (Some (AWSError ''NoSuchTagSet'' ''The TagSet does not exist'')) ''NoSuchTagSet'' [] \<and>
   S3BucketListTags noTagSetConn ''my-bucket'' =
     ((fmempty, None), [GetBucketTaggingCall ''my-bucket'']) \<and>
   GetObjectTagging noTagSetConn ''my-bucket'' ''key'' =
     Inl (AWSError ''NoSuchTagSet'' ''The TagSet does not exist'') \<and>
   S3ObjectListTags noTagSetConn ''my-bucket'' ''key'' =
     ((fmempty, Some (AWSError ''NoSuchTagSet'' ''The TagSet does not exist'')),
      [GetObjectTaggingCall ''my-bucket'' ''key''])"
proof -
  let ?e = "AWSError ''NoSuchTagSet'' ''The TagSet does not exist''"
  have g: "GetBucketTagging noTagSetConn ''my-bucket'' = Inl ?e"
    and g': "GetObjectTagging noTagSetConn ''my-bucket'' ''key'' = Inl ?e"
    by (simp_all add: noTagSetConn_def)
  have i: "IsAWSErr (Some ?e) ''NoSuchTagSet'' []"
    by (simp add: IsAWSErr_def)
  note inst = list_tags_no_tag_set
    [of noTagSetConn "''my-bucket''" ?e "''my-bucket''" "''key''" ?e]
  have "S3BucketListTags noTagSetConn ''my-bucket'' =
     ((fmempty, None), [GetBucketTaggingCall ''my-bucket''])"
    using inst g i by blast
  moreover have "S3ObjectListTags noTagSetConn ''my-bucket'' ''key'' =
     ((fmempty, Some ?e), [GetObjectTaggingCall ''my-bucket'' ''key''])"
    using inst g' by blast
  ultimately show ?thesis using g g' i by blast
qed

text \<open>
  Claim C9 as stated fails for an object: the \<^verbatim>\<open>NoSuchTagSet\<close> error of the remote
  API is returned to the caller.
\<close>

theorem object_list_tags_counterexample:
  "IsAWSErr (Some (AWSError ''NoSuchTagSet'' ''The TagSet does not exist'')) ''NoSuchTagSet'' [] \<and>
   GetObjectTagging noTagSetConn ''my-bucket'' ''key'' =
     Inl (AWSError ''NoSuchTagSet'' ''The TagSet does not exist'') \<and>
   snd (fst (S3ObjectListTags noTagSetConn ''my-bucket'' ''key'')) =
     Some (AWSError ''NoSuchTagSet'' ''The TagSet does not exist'') \<and>
   snd (fst (S3ObjectListTags noTagSetConn ''my-bucket'' ''key'')) \<noteq> None"
  by (simp add: S3ObjectListTags_def noTagSetConn_def IsAWSErr_def)

text \<open>
  Claim C10. With no new tag and some old tag, the object tag update issues the delete of
  all tags and nothing else. With some new tag it writes the new tags without those with
  a key of AWS's own, and nothing else. It never lists the stored tags, and its result
  does not depend on them; the bucket update, with a system tag stored and no new tag,
  writes the system tag back.
\<close>

theorem object_update_ignores_stored_tags:
  "(newTags = fmempty \<and> oldTags \<noteq> fmempty \<longrightarrow>
      snd (S3ObjectUpdateTags aws conn bkt key oldTags newTags) =
        [DeleteObjectTaggingCall bkt key]) \<and>
   (newTags \<noteq> fmempty \<longrightarrow>
      snd (S3ObjectUpdateTags aws conn bkt key oldTags newTags) =
        [PutObjectTaggingCall bkt key (IgnoreAws aws newTags)] \<and>
      (\<forall>k. aws k \<longrightarrow> fmlookup (IgnoreAws aws newTags) k = None) \<and>
      (\<forall>k. \<not> aws k \<longrightarrow> fmlookup (IgnoreAws aws newTags) k = fmlookup newTags k)) \<and>
   (newTags = fmempty \<and> oldTags = fmempty \<longrightarrow>
      S3ObjectUpdateTags aws conn bkt key oldTags newTags = (None, [])) \<and>
   GetObjectTaggingCall bkt key \<notin> set (snd (S3ObjectUpdateTags aws conn bkt key oldTags newTags)) \<and>
   S3ObjectUpdateTags aws (conn\<lparr>GetObjectTagging := stored\<rparr>) bkt key oldTags newTags =
     S3ObjectUpdateTags aws conn bkt key oldTags newTags \<and>
   (\<forall>sys x. aws sys \<and> GetBucketTagging conn bkt = Inr (fmupd sys x fmempty) \<longrightarrow>
      snd (S3BucketUpdateTags aws conn bkt oldTags fmempty) =
        [GetBucketTaggingCall bkt, PutBucketTaggingCall bkt (fmupd sys x fmempty)])"
proof -
  have d: "snd (S3ObjectUpdateTags aws conn bkt key oldTags newTags) =
        [DeleteObjectTaggingCall bkt key]"
    if "newTags = fmempty \<and> oldTags \<noteq> fmempty"
    using that len_pos_iff[of oldTags] len_zero_iff[of newTags]
    by (simp add: S3ObjectUpdateTags_def split: option.splits)
  have p: "snd (S3ObjectUpdateTags aws conn bkt key oldTags newTags) =
        [PutObjectTaggingCall bkt key (IgnoreAws aws newTags)]"
    if "newTags \<noteq> fmempty"
    using that len_pos_iff[of newTags]
    by (simp add: S3ObjectUpdateTags_def split: option.splits)
  have s: "\<forall>k. aws k \<longrightarrow> fmlookup (IgnoreAws aws newTags) k = None"
    and k: "\<forall>k. \<not> aws k \<longrightarrow> fmlookup (IgnoreAws aws newTags) k = fmlookup newTags k"
    by (simp_all add: IgnoreAws_def)
  have n: "S3ObjectUpdateTags aws conn bkt key oldTags newTags = (None, [])"
    if "newTags = fmempty \<and> oldTags = fmempty"
    using that len_zero_iff[of newTags] len_zero_iff[of oldTags]
    by (simp add: S3ObjectUpdateTags_def)
  have g: "GetObjectTaggingCall bkt key \<notin>
             set (snd (S3ObjectUpdateTags aws conn bkt key oldTags newTags))"
    by (simp add: S3ObjectUpdateTags_def split: option.splits)
  have i: "S3ObjectUpdateTags aws (conn\<lparr>GetObjectTagging := stored\<rparr>) bkt key oldTags newTags =
     S3ObjectUpdateTags aws conn bkt key oldTags newTags"
    by (simp add: S3ObjectUpdateTags_def)
  have b: "snd (S3BucketUpdateTags aws conn bkt oldTags fmempty) =
        [GetBucketTaggingCall bkt, PutBucketTaggingCall bkt (fmupd sys x fmempty)]"
    if "aws sys \<and> GetBucketTagging conn bkt = Inr (fmupd sys x fmempty)" for sys x
  proof -
    have "fst (S3BucketListTags conn bkt) = (fmupd sys x fmempty, None)"
      using that by (simp add: S3BucketListTags_def)
    from bucket_update_listed[OF this, of aws oldTags fmempty] that
    show ?thesis by (simp add: Merge_def)
  qed
  show ?thesis using d p s k n g i b by blast
qed

theorem object_update_ignores_stored_tags_witness:
  "fmupd ''user'' ''a'' fmempty \<noteq> fmempty \<and> hasAwsPrefix ''aws:sys'' \<and>
   snd (S3ObjectUpdateTags hasAwsPrefix (storingConn (fmupd ''aws:sys'' ''x'' fmempty))
          ''my-bucket'' ''key'' (fmupd ''user'' ''a'' fmempty) fmempty) =
     [DeleteObjectTaggingCall ''my-bucket'' ''key''] \<and>
   snd (S3ObjectUpdateTags hasAwsPrefix (storingConn (fmupd ''aws:sys'' ''x'' fmempty))
          ''my-bucket'' ''key'' fmempty
          (fmupd ''aws:sys'' ''y'' (fmupd ''user'' ''a'' fmempty))) =
     [PutObjectTaggingCall ''my-bucket'' ''key'' (fmupd ''user'' ''a'' fmempty)] \<and>
   snd (S3BucketUpdateTags hasAwsPrefix (storingConn (fmupd ''aws:sys'' ''x'' fmempty))
          ''my-bucket'' (fmupd ''user'' ''a'' fmempty) fmempty) =
     [GetBucketTaggingCall ''my-bucket'',
      PutBucketTaggingCall ''my-bucket'' (fmupd ''aws:sys'' ''x'' fmempty)]"
proof -
  let ?conn = "storingConn (fmupd ''aws:sys'' ''x'' fmempty)"
  let ?new = "fmupd ''aws:sys'' ''y'' (fmupd ''user'' ''a'' fmempty)"
  have o: "fmupd ''user'' ''a'' fmempty \<noteq> (fmempty :: KeyValueTags)"
    by (metis fmdom_empty fmdom_fmupd finsert_not_fempty)
  have n: "?new \<noteq> (fmempty :: KeyValueTags)"
    by (metis fmdom_empty fmdom_fmupd finsert_not_fempty)
  have a: "hasAwsPrefix ''aws:sys''" by (simp add: hasAwsPrefix_def)
  have g: "GetBucketTagging ?conn ''my-bucket'' = Inr (fmupd ''aws:sys'' ''x'' fmempty)"
    by (simp add: storingConn_def)
  have i: "IgnoreAws hasAwsPrefix ?new = fmupd ''user'' ''a'' fmempty"
    by (simp add: IgnoreAws_def hasAwsPrefix_def)
  have 1: "snd (S3ObjectUpdateTags hasAwsPrefix ?conn ''my-bucket'' ''key''
                  (fmupd ''user'' ''a'' fmempty) fmempty) =
     [DeleteObjectTaggingCall ''my-bucket'' ''key'']"
    using object_update_ignores_stored_tags
      [where newTags = fmempty and oldTags = "fmupd ''user'' ''a'' fmempty"
         and aws = hasAwsPrefix and conn = ?conn and bkt = "''my-bucket''" and key = "''key''"] o
    by blast
  have 2: "snd (S3ObjectUpdateTags hasAwsPrefix ?conn ''my-bucket'' ''key'' fmempty ?new) =
     [PutObjectTaggingCall ''my-bucket'' ''key'' (IgnoreAws hasAwsPrefix ?new)]"
    using object_update_ignores_stored_tags
      [where newTags = ?new and oldTags = fmempty
         and aws = hasAwsPrefix and conn = ?conn and bkt = "''my-bucket''" and key = "''key''"] n
    by blast
  have 3: "snd (S3BucketUpdateTags hasAwsPrefix ?conn ''my-bucket''
                  (fmupd ''user'' ''a'' fmempty) fmempty) =
     [GetBucketTaggingCall ''my-bucket'',
      PutBucketTaggingCall ''my-bucket'' (fmupd ''aws:sys'' ''x'' fmempty)]"
    using object_update_ignores_stored_tags
      [where newTags = fmempty and oldTags = "fmupd ''user'' ''a'' fmempty"
         and aws = hasAwsPrefix and conn = ?conn and bkt = "''my-bucket''" and key = "''key''"]
      a g
    by blast
  show ?thesis using o a 1 2 3 unfolding i by blast
qed

section \<open>The identity codec\<close>

lemma parse_create:
  assumes "bkt \<noteq> []" "sep \<notin> set bkt" "sep \<notin> set owner"
  shows "ParseResourceID sep (CreateResourceID sep bkt owner) = Inr (bkt, owner)"
proof -
  have t: "takeWhile (\<lambda>c. c \<noteq> sep) (bkt @ sep # owner) = bkt"
    using assms(2) by (induction bkt) auto
  have "dropWhile (\<lambda>c. c \<noteq> sep) (bkt @ sep # owner) = sep # owner"
    using assms(2) by (induction bkt) auto
  then have d: "tl (dropWhile (\<lambda>c. c \<noteq> sep) (bkt @ sep # owner)) = owner"
    by simp
  show ?thesis
    unfolding ParseResourceID_def CreateResourceID_def Let_def t d
    using assms(1,3) by simp
qed

text \<open>
  Claim C5. For a valid bucket name and a valid owner account id, the absent (empty) one
  included, decoding the encoded identity returns the two with no error.
\<close>

theorem parse_create_roundtrip:
  "validBucket sep bkt \<and> validOwner sep owner \<longrightarrow>
     ParseResourceID sep (CreateResourceID sep bkt owner) = Inr (bkt, owner)"
proof
  assume v: "validBucket sep bkt \<and> validOwner sep owner"
  then have "bkt \<noteq> []" "sep \<notin> set bkt" by (auto simp: validBucket_def)
  moreover have "sep \<notin> set owner" using v by (auto simp: validOwner_def)
  ultimately show "ParseResourceID sep (CreateResourceID sep bkt owner) = Inr (bkt, owner)"
    by (rule parse_create)
qed

theorem parse_create_roundtrip_witness:
  "validBucket CHR '','' ''my-bucket'' \<and> validOwner CHR '','' [] \<and>
   validOwner CHR '','' ''123456789012'' \<and>
   CreateResourceID CHR '','' ''my-bucket'' [] = ''my-bucket,'' \<and>
   ParseResourceID CHR '','' ''my-bucket,'' = Inr (''my-bucket'', []) \<and>
   CreateResourceID CHR '','' ''my-bucket'' ''123456789012'' = ''my-bucket,123456789012'' \<and>
   ParseResourceID CHR '','' ''my-bucket,123456789012'' = Inr (''my-bucket'', ''123456789012'')"
proof -
  have b: "validBucket CHR '','' ''my-bucket''" by (simp add: validBucket_def)
  have o1: "validOwner CHR '','' []" by (simp add: validOwner_def)
  have o2: "validOwner CHR '','' ''123456789012''" by (simp add: validOwner_def isDigit_def)
  have c1: "CreateResourceID CHR '','' ''my-bucket'' [] = ''my-bucket,''"
    and c2: "CreateResourceID CHR '','' ''my-bucket'' ''123456789012'' = ''my-bucket,123456789012''"
    by (simp_all add: CreateResourceID_def)
  have "ParseResourceID CHR '','' (CreateResourceID CHR '','' ''my-bucket'' []) =
          Inr (''my-bucket'', [])"
    using parse_create_roundtrip[of "CHR '',''" "''my-bucket''" "[]"] b o1 by blast
  moreover have "ParseResourceID CHR '','' (CreateResourceID CHR '','' ''my-bucket'' ''123456789012'') =
          Inr (''my-bucket'', ''123456789012'')"
    using parse_create_roundtrip[of "CHR '',''" "''my-bucket''" "''123456789012''"] b o2 by blast
  ultimately show ?thesis using b o1 o2 c1 c2 by simp
qed

end
